theory Spec2Isabelle
  imports Complex_Main
begin

section \<open>Numbers\<close>

text \<open>
  Prices, cash, weights and commissions are Python/numpy floats in the source, that is
  IEEE binary64 numbers. Where only a real-valued result is read off them they are
  modelled as exact reals, which differ from the program's values by the rounding of the
  last place. In the corporate-action adjustment, whose integer results and whose branch
  hang on the rounding, each operation is the exact one followed by the rounding to the
  nearest double, \<open>round_double\<close> below. The order volumes of the rebalancing are
  truncated exact quotients and may differ from the program's by that rounding; what is
  proved of the rebalancing is about its sets and the order of its result, not about
  volumes.

  Volumes are integral in every path of the source (orders carry \<open>roundVolume\<close>
  results or book volumes), so they are integers here; a volume beyond the range in
  which the table's column is exact (2^53 for a float column, 2^63 for an int column)
  is outside the model.

  Python's \<open>int(x)\<close> on a float truncates towards zero.
\<close>

definition py_int :: "real \<Rightarrow> int" where
  "py_int x = (if 0 \<le> x then \<lfloor>x\<rfloor> else \<lceil>x\<rceil>)"

text \<open>
  Rounding to the nearest double, ties to the even significand. A double has 53
  significant bits: in the binade \<open>2^e \<le> |x| < 2^(e+1)\<close> the doubles are the multiples
  of \<open>2^(e-52)\<close>, and below \<open>2^(-1022)\<close> (the subnormal range) the multiples of
  \<open>2^(-1074)\<close>. A magnitude that would overflow to an infinity is outside the model.
\<close>

definition round_half_even :: "real \<Rightarrow> int" where
  "round_half_even x =
     (let n = \<lfloor>x\<rfloor>; r = x - of_int n
      in if r < 1 / 2 then n else if 1 / 2 < r then n + 1 else if even n then n else n + 1)"

definition pow2 :: "int \<Rightarrow> real" where
  "pow2 e = (if 0 \<le> e then 2 ^ nat e else 1 / 2 ^ nat (- e))"

function binade_up :: "real \<Rightarrow> int" where
  "binade_up x = (if x < 2 then 0 else 1 + binade_up (x / 2))"
  by pat_completeness auto
termination
proof (relation "measure (\<lambda>x. nat \<lceil>x\<rceil>)")
  show "wf (measure (\<lambda>x. nat \<lceil>x\<rceil>))" by simp
next
  fix x :: real assume big: "\<not> x < 2"
  then have "x / 2 \<le> x - 1" by simp
  then have "\<lceil>x / 2\<rceil> \<le> \<lceil>x - 1\<rceil>" by (rule ceiling_mono)
  moreover have "0 < \<lceil>x\<rceil>" using big by simp
  ultimately show "(x / 2, x) \<in> measure (\<lambda>x. nat \<lceil>x\<rceil>)" by simp
qed

function binade_down :: "real \<Rightarrow> int" where
  "binade_down x = (if x \<le> 0 \<or> 1 \<le> x then 0 else binade_down (2 * x) - 1)"
  by pat_completeness auto
termination
proof (relation "measure (\<lambda>x. nat \<lceil>1 / x\<rceil>)")
  show "wf (measure (\<lambda>x. nat \<lceil>1 / x\<rceil>))" by simp
next
  fix x :: real assume "\<not> (x \<le> 0 \<or> 1 \<le> x)"
  then have x: "0 < x" "x < 1" by simp_all
  then have inv: "1 < 1 / x" by simp
  have half: "\<lceil>y / 2\<rceil> < \<lceil>y\<rceil>" if "1 < y" for y :: real
  proof (cases "y \<le> 2")
    case True
    then have "\<lceil>y / 2\<rceil> \<le> 1" by (simp add: ceiling_le_iff)
    moreover have "2 \<le> \<lceil>y\<rceil>" using that by linarith
    ultimately show ?thesis by linarith
  next
    case False
    then have "y / 2 \<le> y - 1" by simp
    then have "\<lceil>y / 2\<rceil> \<le> \<lceil>y - 1\<rceil>" by (rule ceiling_mono)
    then show ?thesis by linarith
  qed
  have eq: "1 / (2 * x) = (1 / x) / 2" by simp
  have "\<lceil>1 / (2 * x)\<rceil> < \<lceil>1 / x\<rceil>"
    unfolding eq by (rule half [OF inv])
  moreover have "0 < \<lceil>1 / x\<rceil>" using inv by linarith
  ultimately show "(2 * x, x) \<in> measure (\<lambda>x. nat \<lceil>1 / x\<rceil>)" by simp
qed

declare binade_up.simps [simp del] binade_down.simps [simp del]

text \<open>\<open>binade x\<close> is the \<open>e\<close> with \<open>2^e \<le> x < 2^(e+1)\<close>, for a positive \<open>x\<close>.\<close>

definition binade :: "real \<Rightarrow> int" where
  "binade x = (if 1 \<le> x then binade_up x else binade_down x)"

definition round_double :: "real \<Rightarrow> real" where
  "round_double x =
     (let q = pow2 (max (binade \<bar>x\<bar>) (- 1022) - 52)
      in of_int (round_half_even (x / q)) * q)"

text \<open>The float operations, and an integer taken as a float.\<close>

definition dadd :: "real \<Rightarrow> real \<Rightarrow> real" where "dadd a b = round_double (a + b)"
definition dsub :: "real \<Rightarrow> real \<Rightarrow> real" where "dsub a b = round_double (a - b)"
definition dmul :: "real \<Rightarrow> real \<Rightarrow> real" where "dmul a b = round_double (a * b)"
definition ddiv :: "real \<Rightarrow> real \<Rightarrow> real" where "ddiv a b = round_double (a / b)"
definition dint :: "int \<Rightarrow> real" where "dint n = round_double (of_int n)"

text \<open>
  Where the source can produce a non-finite float (a numpy division by zero does not raise,
  it yields \<open>inf\<close> or \<open>nan\<close>), the value is a \<open>pyfloat\<close>: a finite real, or one
  of the three special values, with the IEEE rules for the operations the source applies
  to such values.
\<close>

datatype pyfloat = Fin real | PosInf | NegInf | NaN

fun fmul :: "pyfloat \<Rightarrow> pyfloat \<Rightarrow> pyfloat" where
  "fmul (Fin a) (Fin b) = Fin (a * b)"
| "fmul NaN _ = NaN"
| "fmul _ NaN = NaN"
| "fmul (Fin a) PosInf = (if a = 0 then NaN else if 0 < a then PosInf else NegInf)"
| "fmul (Fin a) NegInf = (if a = 0 then NaN else if 0 < a then NegInf else PosInf)"
| "fmul PosInf (Fin b) = (if b = 0 then NaN else if 0 < b then PosInf else NegInf)"
| "fmul NegInf (Fin b) = (if b = 0 then NaN else if 0 < b then NegInf else PosInf)"
| "fmul PosInf PosInf = PosInf"
| "fmul PosInf NegInf = NegInf"
| "fmul NegInf PosInf = NegInf"
| "fmul NegInf NegInf = PosInf"

fun fadd :: "pyfloat \<Rightarrow> pyfloat \<Rightarrow> pyfloat" where
  "fadd (Fin a) (Fin b) = Fin (a + b)"
| "fadd NaN _ = NaN"
| "fadd _ NaN = NaN"
| "fadd PosInf NegInf = NaN"
| "fadd NegInf PosInf = NaN"
| "fadd PosInf _ = PosInf"
| "fadd NegInf _ = NegInf"
| "fadd _ PosInf = PosInf"
| "fadd _ NegInf = NegInf"

fun fdiv :: "pyfloat \<Rightarrow> pyfloat \<Rightarrow> pyfloat" where
  "fdiv (Fin a) (Fin b) =
     (if b \<noteq> 0 then Fin (a / b)
      else if a = 0 then NaN else if 0 < a then PosInf else NegInf)"
| "fdiv NaN _ = NaN"
| "fdiv _ NaN = NaN"
| "fdiv (Fin a) PosInf = Fin 0"
| "fdiv (Fin a) NegInf = Fin 0"
| "fdiv PosInf (Fin b) = (if 0 \<le> b then PosInf else NegInf)"
| "fdiv NegInf (Fin b) = (if 0 \<le> b then NegInf else PosInf)"
| "fdiv PosInf _ = NaN"
| "fdiv NegInf _ = NaN"

section \<open>Errors\<close>

type_synonym secId = string

text \<open>
  The source raises plain \<open>Exception\<close> objects told apart by their message, and pandas
  and Python raise their own. One constructor per kind of raise site.
\<close>

datatype error =
    OrderNotFound int
  | SubscriberNotFound int
  | RefDataNotFound secId
  | DateTooEarly nat
  | IndexError
  | KeyError string
  | AttributeError string
  | ValueError
  | OverflowError

text \<open>\<open>int(x)\<close> raises on \<open>nan\<close> (ValueError) and on an infinity (OverflowError).\<close>

fun py_int_f :: "pyfloat \<Rightarrow> error + int" where
  "py_int_f (Fin x) = Inr (py_int x)"
| "py_int_f NaN = Inl ValueError"
| "py_int_f PosInf = Inl OverflowError"
| "py_int_f NegInf = Inl OverflowError"

section \<open>util/stock.py\<close>

text \<open>
  \<open>adjustPrice( position, cash, dividend10, right10, rightIssue10, rightIssuePrice )\<close>,
  in double arithmetic: the allotment is the truncated double product and the purchase
  hangs on a comparison of doubles. A float argument that is not a double stands for the
  double nearest to it, as a decimal literal does in the source language. The two
  leading \<open>if ... : x = 1\<close> statements of the source assign a local that is never read;
  they have no counterpart here.
\<close>

definition adjustPrice :: "int \<Rightarrow> real \<Rightarrow> real \<Rightarrow> real \<Rightarrow> real \<Rightarrow> real \<Rightarrow> int \<times> real" where
  "adjustPrice position cash dividend10 right10 rightIssue10 rightIssuePrice =
     (let cash = round_double cash;
          dividend10 = round_double dividend10;
          right10 = round_double right10;
          rightIssue10 = round_double rightIssue10;
          rightIssuePrice = round_double rightIssuePrice;
          unit = py_int (ddiv (dint position) 10);
          newCash = dadd cash (dmul dividend10 (dint unit));
          newPosition = position + py_int (dmul (dint unit) right10);
          rightIssueVolume = py_int (dmul rightIssue10 (dint unit))
      in if cash > dmul (dint rightIssueVolume) rightIssuePrice
         then (newPosition + rightIssueVolume,
               dsub newCash (dmul (dint rightIssueVolume) rightIssuePrice))
         else (newPosition, newCash))"

text \<open>
  \<open>roundVolume( volume, lotSize=100 )\<close> is \<open>int( volume / lotSize ) * lotSize\<close>. Its
  argument is a quotient of floats that may not be finite.
\<close>

definition roundVolume :: "pyfloat \<Rightarrow> int \<Rightarrow> error + int" where
  "roundVolume volume lotSize =
     (case py_int_f (fdiv volume (Fin (of_int lotSize))) of
        Inl e \<Rightarrow> Inl e
      | Inr lots \<Rightarrow> Inr (lots * lotSize))"

section \<open>strats/book.py\<close>

text \<open>
  The book is a pandas DataFrame indexed by \<open>SecID\<close> with the columns \<open>Price\<close> and
  \<open>Volume\<close>: an ordered table with one row per instrument, here an association list in
  index order.
\<close>

record position =
  Price :: pyfloat
  Volume :: int

record PortfolioPosition =
  book :: "(secId \<times> position) list"
  cash :: real

datatype warning =
    NotEnoughHoldings secId int real int
  | NotInBook secId

definition init_PortfolioPosition :: "real \<Rightarrow> PortfolioPosition" where
  "init_PortfolioPosition totalAsset = \<lparr>book = [], cash = totalAsset\<rparr>"

text \<open>\<open>df.ix[ k ] = row\<close>: overwrite the row labelled \<open>k\<close>, or append a new one.\<close>

definition setRow :: "(secId \<times> 'a) list \<Rightarrow> secId \<Rightarrow> 'a \<Rightarrow> (secId \<times> 'a) list" where
  "setRow df k row =
     (if map_of df k = None then df @ [(k, row)]
      else map (\<lambda>(k', r). if k' = k then (k', row) else (k', r)) df)"

text \<open>\<open>df.drop( k, inplace=True )\<close> for a label that is present.\<close>

definition dropRow :: "(secId \<times> 'a) list \<Rightarrow> secId \<Rightarrow> (secId \<times> 'a) list" where
  "dropRow df k = filter (\<lambda>(k', r). k' \<noteq> k) df"

definition getStocksInBook :: "PortfolioPosition \<Rightarrow> secId set" where
  "getStocksInBook self = set (map fst (book self))"

definition isCashEnough :: "PortfolioPosition \<Rightarrow> real \<Rightarrow> int \<Rightarrow> real \<Rightarrow> bool" where
  "isCashEnough self price volume commision = (cash self > price * of_int volume + commision)"

text \<open>
  \<open>addPosition\<close>. For a held instrument the source takes the row object
  \<open>position.ix[ secId ]\<close>, assigns the new average and volume to its fields, and does
  not store the row back into the table (\<open>deletePosition\<close> below does store its row
  back). Whether the table sees the assignment is up to pandas: the row object of a
  float-typed table shares the table's cells and takes the values in place, while the
  row object of an int-typed table cannot hold a fractional average, is moved to
  storage of its own by the assignment, and the table keeps the old row. The argument
  \<open>inPlace\<close> says which of the two happens. A new instrument is stored by an
  assignment to the table itself.
\<close>

definition addPosition ::
  "bool \<Rightarrow> PortfolioPosition \<Rightarrow> secId \<Rightarrow> real \<Rightarrow> int \<Rightarrow> real \<Rightarrow> PortfolioPosition" where
  "addPosition inPlace self secId price volume commision =
     (let position = book self;
          position' =
            (case map_of position secId of
               Some secPos \<Rightarrow>
                 (let secPos' =
                        \<lparr>Price = fdiv (fadd (fmul (Price secPos) (Fin (of_int (Volume secPos))))
                                            (Fin (price * of_int volume)))
                                      (Fin (of_int (Volume secPos + volume))),
                         Volume = Volume secPos + volume\<rparr>
                  in if inPlace then setRow position secId secPos' else position)
             | None \<Rightarrow> setRow position secId \<lparr>Price = Fin price, Volume = volume\<rparr>)
      in self\<lparr>book := position', cash := cash self - (commision + price * of_int volume)\<rparr>)"

definition deletePosition ::
  "PortfolioPosition \<Rightarrow> secId \<Rightarrow> real \<Rightarrow> int \<Rightarrow> real \<Rightarrow> PortfolioPosition \<times> warning list" where
  "deletePosition self secId price volume commision =
     (case map_of (book self) secId of
        None \<Rightarrow> (self, [])
      | Some secPos \<Rightarrow>
          (let position = dropRow (book self) secId;
               short = (volume > Volume secPos);
               availVol = (if short then Volume secPos else volume);
               secPos' = secPos\<lparr>Volume := Volume secPos - availVol\<rparr>;
               cash' = cash self + (of_int availVol * price - commision);
               position' = (if Volume secPos' > 0 then setRow position secId secPos'
                            else position)
           in (self\<lparr>book := position', cash := cash'\<rparr>,
               if short then [NotEnoughHoldings secId volume price (Volume secPos)] else [])))"

text \<open>
  \<open>PortfolioPosition.adjustPrice\<close> assigns the new volume to the row object as well;
  it has the type of the old volume, so the row takes it in place.
\<close>

definition PortfolioPosition_adjustPrice ::
  "PortfolioPosition \<Rightarrow> secId \<Rightarrow> real \<Rightarrow> real \<Rightarrow> real \<Rightarrow> real \<Rightarrow> PortfolioPosition \<times> warning list" where
  "PortfolioPosition_adjustPrice self secId dividend10 right10 rightIssue10 rightIssuePrice =
     (case map_of (book self) secId of
        Some secPos \<Rightarrow>
          (let (newVolume, newCash) =
                 adjustPrice (Volume secPos) (cash self) dividend10 right10 rightIssue10
                   rightIssuePrice
           in (self\<lparr>book := setRow (book self) secId (secPos\<lparr>Volume := newVolume\<rparr>),
                    cash := newCash\<rparr>, []))
      | None \<Rightarrow> (self, [NotInBook secId]))"

text \<open>\<open>getPosition( secId )\<close>: \<open>self.book.ix[ secId ].Volume\<close>, a KeyError off the index.\<close>

definition getPosition :: "PortfolioPosition \<Rightarrow> secId \<Rightarrow> error + int" where
  "getPosition self secId =
     (case map_of (book self) secId of
        Some secPos \<Rightarrow> Inr (Volume secPos)
      | None \<Rightarrow> Inl (KeyError secId))"

text \<open>
  \<open>getTotalAsset( refPrices, excludeSuspended )\<close>. The reference frame is read through
  its columns \<open>S_INFO_WINDCODE\<close> and \<open>S_DQ_CLOSE\<close> only, so it is the list of these
  pairs, one row per instrument (the frame holds one day). The product of the volume
  and the price series is aligned on the book's index; an instrument without a price
  gives \<open>nan\<close>, which \<open>sum\<close> skips.
\<close>

definition getTotalAsset ::
  "PortfolioPosition \<Rightarrow> (secId \<times> real) list option \<Rightarrow> secId set option \<Rightarrow> real" where
  "getTotalAsset self refPrices excludeSuspended =
     (case refPrices of
        None \<Rightarrow> cash self
      | Some prices \<Rightarrow>
          (let monetaryVolumes =
                 map (\<lambda>(s, secPos). (s, map_option (\<lambda>close. of_int (Volume secPos) * close)
                                            (map_of prices s)))
                   (book self);
               skipna = (\<lambda>(s, v). case v of Some x \<Rightarrow> x | None \<Rightarrow> 0)
           in case excludeSuspended of
                None \<Rightarrow> cash self + sum_list (map skipna monetaryVolumes)
              | Some suspended \<Rightarrow>
                  cash self
                    + sum_list (map skipna
                        (filter (\<lambda>(s, v). s \<notin> suspended) monetaryVolumes))))"

section \<open>execution/order.py\<close>

definition BUY :: int where "BUY = 1"
definition SELL :: int where "SELL = - 1"
definition UNKNOWN :: int where "UNKNOWN = 0"

definition LIMIT_ORDER :: int where "LIMIT_ORDER = 0"
definition MARKET_ORDER :: int where "MARKET_ORDER = 1"

record Order =
  o_secId :: secId
  o_side :: int
  o_volume :: int
  o_price :: real
  o_priceType :: int
  o_offset :: "int option"

text \<open>\<open>Order( secId, side, volume, price )\<close> with the default price type and offset.\<close>

definition mkOrder :: "secId \<Rightarrow> int \<Rightarrow> int \<Rightarrow> real \<Rightarrow> Order" where
  "mkOrder secId side volume price =
     \<lparr>o_secId = secId, o_side = side, o_volume = volume, o_price = price,
      o_priceType = LIMIT_ORDER, o_offset = None\<rparr>"

datatype status = SUBMITTED | CANCELLED | EXECUTED

text \<open>\<open>SimpleOrderStatus\<close>: every field defaults to \<open>None\<close>.\<close>

record SimpleOrderStatus =
  s_orderStatus :: "status option"
  s_secId :: "secId option"
  s_executedPrice :: "real option"
  s_commision :: "real option"
  s_orderDirection :: "int option"
  s_orderSize :: "int option"

definition statusOnly :: "status \<Rightarrow> SimpleOrderStatus" where
  "statusOnly st =
     \<lparr>s_orderStatus = Some st, s_secId = None, s_executedPrice = None, s_commision = None,
      s_orderDirection = None, s_orderSize = None\<rparr>"

section \<open>execution/refData.py\<close>

text \<open>
  The engine reads the tick size and the lot size of an instrument from a reference-data
  object. The base class answers 0.01 and 1 for every name; the futures classes look the
  name up in a table and raise when it has no record. The object is a pair of lookups.
\<close>

record RefData =
  getTickSize :: "secId \<Rightarrow> error + real"
  getLotSize :: "secId \<Rightarrow> error + real"

definition baseRefData :: RefData where
  "baseRefData = \<lparr>getTickSize = (\<lambda>_. Inr (1 / 100)), getLotSize = (\<lambda>_. Inr 1)\<rparr>"

section \<open>execution/backtestEngine.py\<close>

record BacktestExecutionEngine =
  be_commisionRate :: real
  be_marketImpact :: int
  be_refData :: RefData
  be_executedOrders :: "int \<rightharpoonup> Order"
  be_nextId :: int

definition init_BacktestExecutionEngine :: "real \<Rightarrow> int \<Rightarrow> RefData \<Rightarrow> BacktestExecutionEngine" where
  "init_BacktestExecutionEngine commisionRate marketImpact refData =
     \<lparr>be_commisionRate = commisionRate, be_marketImpact = marketImpact, be_refData = refData,
      be_executedOrders = Map.empty, be_nextId = 1\<rparr>"

definition BacktestExecutionEngine_queryOrder ::
  "BacktestExecutionEngine \<Rightarrow> int \<Rightarrow> error + SimpleOrderStatus" where
  "BacktestExecutionEngine_queryOrder self orderId =
     (case be_executedOrders self orderId of
        None \<Rightarrow> Inl (OrderNotFound orderId)
      | Some orderObj \<Rightarrow>
          (let direction = (if o_side orderObj = BUY then 1 else - 1 :: int);
               size = o_volume orderObj
           in case getTickSize (be_refData self) (o_secId orderObj) of
                Inl e \<Rightarrow> Inl e
              | Inr tickSize \<Rightarrow>
                  (let effectivePrice =
                         o_price orderObj
                           + of_int direction * tickSize * of_int (be_marketImpact self)
                   in case getLotSize (be_refData self) (o_secId orderObj) of
                        Inl e \<Rightarrow> Inl e
                      | Inr contractFactor \<Rightarrow>
                          Inr \<lparr>s_orderStatus = Some EXECUTED,
                               s_secId = Some (o_secId orderObj),
                               s_executedPrice = Some effectivePrice,
                               s_commision =
                                 Some (effectivePrice * of_int size * contractFactor
                                         * be_commisionRate self),
                               s_orderDirection = Some direction,
                               s_orderSize = Some size\<rparr>)))"

text \<open>
  \<open>placeOrder\<close> stores the order under the next id, queries it and hands the status to
  the caller's \<open>onOrderFilled\<close>. The model returns the new engine and, when the query
  did not raise, the id together with the status the callback receives.
\<close>

definition BacktestExecutionEngine_placeOrder ::
  "BacktestExecutionEngine \<Rightarrow> Order \<Rightarrow> BacktestExecutionEngine \<times> (error + int \<times> SimpleOrderStatus)" where
  "BacktestExecutionEngine_placeOrder self order =
     (let orderId = be_nextId self;
          self' = self\<lparr>be_nextId := be_nextId self + 1,
                       be_executedOrders := (be_executedOrders self)(orderId \<mapsto> order)\<rparr>
      in (self', case BacktestExecutionEngine_queryOrder self' orderId of
                   Inl e \<Rightarrow> Inl e
                 | Inr orderStatus \<Rightarrow> Inr (orderId, orderStatus)))"

definition BacktestExecutionEngine_cancelOrder ::
  "BacktestExecutionEngine \<Rightarrow> int \<Rightarrow> error + SimpleOrderStatus" where
  "BacktestExecutionEngine_cancelOrder self orderId = Inr (statusOnly EXECUTED)"

definition BacktestExecutionEngine_updateOrder ::
  "BacktestExecutionEngine \<Rightarrow> int \<Rightarrow> Order \<Rightarrow> int" where
  "BacktestExecutionEngine_updateOrder self orderId order = - 1"

section \<open>execution/stockBacktestEngine.py\<close>

record StockBacktestExecutionEngine =
  sbe_commisionRate :: real
  sbe_marketImpact :: int
  sbe_nextId :: int
  sbe_executedOrders :: "int \<rightharpoonup> Order"

definition init_StockBacktestExecutionEngine :: "real \<Rightarrow> int \<Rightarrow> StockBacktestExecutionEngine" where
  "init_StockBacktestExecutionEngine commisionRate marketImpact =
     \<lparr>sbe_commisionRate = commisionRate, sbe_marketImpact = marketImpact, sbe_nextId = 1,
      sbe_executedOrders = Map.empty\<rparr>"

definition StockBacktestExecutionEngine_queryOrder ::
  "StockBacktestExecutionEngine \<Rightarrow> int \<Rightarrow> error + SimpleOrderStatus" where
  "StockBacktestExecutionEngine_queryOrder self orderId =
     (case sbe_executedOrders self orderId of
        None \<Rightarrow> Inl (OrderNotFound orderId)
      | Some orderObj \<Rightarrow>
          (let direction = (if o_side orderObj = BUY then 1 else - 1 :: int);
               size = o_volume orderObj;
               effectivePrice =
                 o_price orderObj + of_int direction * (1 / 100) * of_int (sbe_marketImpact self)
           in Inr \<lparr>s_orderStatus = Some EXECUTED,
                    s_secId = Some (o_secId orderObj),
                    s_executedPrice = Some effectivePrice,
                    s_commision = Some (effectivePrice * of_int size * sbe_commisionRate self),
                    s_orderDirection = Some direction,
                    s_orderSize = Some size\<rparr>))"

definition StockBacktestExecutionEngine_placeOrder ::
  "StockBacktestExecutionEngine \<Rightarrow> Order \<Rightarrow> StockBacktestExecutionEngine \<times> (error + int \<times> SimpleOrderStatus)" where
  "StockBacktestExecutionEngine_placeOrder self order =
     (let orderId = sbe_nextId self;
          self' = self\<lparr>sbe_nextId := sbe_nextId self + 1,
                       sbe_executedOrders := (sbe_executedOrders self)(orderId \<mapsto> order)\<rparr>
      in (self', case StockBacktestExecutionEngine_queryOrder self' orderId of
                   Inl e \<Rightarrow> Inl e
                 | Inr orderStatus \<Rightarrow> Inr (orderId, orderStatus)))"

definition StockBacktestExecutionEngine_cancelOrder ::
  "StockBacktestExecutionEngine \<Rightarrow> int \<Rightarrow> error + SimpleOrderStatus" where
  "StockBacktestExecutionEngine_cancelOrder self orderId = Inr (statusOnly EXECUTED)"

text \<open>An engine after a sequence of \<open>placeOrder\<close> calls, whatever each call returned.\<close>

fun be_placeAll :: "BacktestExecutionEngine \<Rightarrow> Order list \<Rightarrow> BacktestExecutionEngine" where
  "be_placeAll self [] = self"
| "be_placeAll self (order # orders) =
     be_placeAll (fst (BacktestExecutionEngine_placeOrder self order)) orders"

fun sbe_placeAll :: "StockBacktestExecutionEngine \<Rightarrow> Order list \<Rightarrow> StockBacktestExecutionEngine" where
  "sbe_placeAll self [] = self"
| "sbe_placeAll self (order # orders) =
     sbe_placeAll (fst (StockBacktestExecutionEngine_placeOrder self order)) orders"

section \<open>datafeed/subpub.py\<close>

text \<open>
  A subscriber is an object with \<open>getSubscribedTopics\<close>, \<open>getSubscribedDataFields\<close>
  (\<open>None\<close> for all fields), \<open>onData\<close> and, for the backtest publisher, \<open>openMarket\<close>.
  What a subscriber does with a call is its own business; the publishers are modelled
  by the calls they make. A subscriber is told apart by its name, and its topics and
  fields do not change while it is registered.
\<close>

record Subscriber =
  subscriberName :: string
  getSubscribedTopics :: "secId list"
  getSubscribedDataFields :: "string list option"

section \<open>datafeed/stockDataPublisher.py\<close>

record StockDataPublisher =
  sdp_subscribers :: "int \<rightharpoonup> Subscriber"
  sdp_topicsToSubscribers :: "secId \<rightharpoonup> Subscriber set"
  sdp_nextId :: int

definition init_StockDataPublisher :: StockDataPublisher where
  "init_StockDataPublisher =
     \<lparr>sdp_subscribers = Map.empty, sdp_topicsToSubscribers = Map.empty, sdp_nextId = 1\<rparr>"

text \<open>The loop of \<open>addSubscriber\<close> over the subscribed topics.\<close>

fun addToTopics ::
  "(secId \<rightharpoonup> Subscriber set) \<Rightarrow> Subscriber \<Rightarrow> secId list \<Rightarrow> (secId \<rightharpoonup> Subscriber set)" where
  "addToTopics m subscriber [] = m"
| "addToTopics m subscriber (topic # topics) =
     (let S = (case m topic of None \<Rightarrow> {} | Some S \<Rightarrow> S)
      in addToTopics (m(topic \<mapsto> insert subscriber S)) subscriber topics)"

text \<open>\<open>addSubscriber( subscriber )\<close>; the argument may be \<open>None\<close>.\<close>

definition StockDataPublisher_addSubscriber ::
  "StockDataPublisher \<Rightarrow> Subscriber option \<Rightarrow> StockDataPublisher \<times> int option" where
  "StockDataPublisher_addSubscriber self subscriber =
     (case subscriber of
        Some s \<Rightarrow>
          (let subId = sdp_nextId self;
               self' = self\<lparr>sdp_nextId := sdp_nextId self + 1,
                            sdp_subscribers := (sdp_subscribers self)(subId \<mapsto> s)\<rparr>
           in (self'\<lparr>sdp_topicsToSubscribers :=
                        addToTopics (sdp_topicsToSubscribers self') s (getSubscribedTopics s)\<rparr>,
               Some subId))
      | None \<Rightarrow> (self, None))"

text \<open>
  The loop of \<open>removeSubscriber\<close>: \<open>topicsToSubscribers[ topic ] -= { subscriber, }\<close>
  raises \<open>KeyError\<close> on a topic that has no entry, and leaves the entries already
  updated as they are.
\<close>

fun dropFromTopics ::
  "(secId \<rightharpoonup> Subscriber set) \<Rightarrow> Subscriber \<Rightarrow> secId list
     \<Rightarrow> (secId \<rightharpoonup> Subscriber set) \<times> (error + unit)" where
  "dropFromTopics m subscriber [] = (m, Inr ())"
| "dropFromTopics m subscriber (topic # topics) =
     (case m topic of
        None \<Rightarrow> (m, Inl (KeyError topic))
      | Some S \<Rightarrow> dropFromTopics (m(topic \<mapsto> S - {subscriber})) subscriber topics)"

definition StockDataPublisher_removeSubscriber ::
  "StockDataPublisher \<Rightarrow> int \<Rightarrow> StockDataPublisher \<times> (error + unit)" where
  "StockDataPublisher_removeSubscriber self subscriberId =
     (case sdp_subscribers self subscriberId of
        None \<Rightarrow> (self, Inl (SubscriberNotFound subscriberId))
      | Some subscriber \<Rightarrow>
          (let self' = self\<lparr>sdp_subscribers := (sdp_subscribers self)(subscriberId := None)\<rparr>;
               (topics', r) = dropFromTopics (sdp_topicsToSubscribers self') subscriber
                                (getSubscribedTopics subscriber)
           in (self'\<lparr>sdp_topicsToSubscribers := topics'\<rparr>, r)))"

text \<open>
  \<open>notify( subscriberId, data )\<close>: the \<open>onData\<close> call it makes, as the subscriber called
  and the data passed.
\<close>

definition StockDataPublisher_notify ::
  "StockDataPublisher \<Rightarrow> int \<Rightarrow> 'd \<Rightarrow> error + Subscriber \<times> 'd" where
  "StockDataPublisher_notify self subscriberId data =
     (case sdp_subscribers self subscriberId of
        Some subscriber \<Rightarrow> Inr (subscriber, data)
      | None \<Rightarrow> Inl (SubscriberNotFound subscriberId))"

text \<open>A sequence of registration calls, and what each call returned.\<close>

datatype pub_call = AddSubscriber "Subscriber option" | RemoveSubscriber int

datatype pub_return = Added "int option" | Removed "error + unit"

fun sdp_calls ::
  "StockDataPublisher \<Rightarrow> pub_call list \<Rightarrow> StockDataPublisher \<times> pub_return list" where
  "sdp_calls self [] = (self, [])"
| "sdp_calls self (AddSubscriber subscriber # calls) =
     (let (self', r) = StockDataPublisher_addSubscriber self subscriber;
          (self'', rs) = sdp_calls self' calls
      in (self'', Added r # rs))"
| "sdp_calls self (RemoveSubscriber subscriberId # calls) =
     (let (self', r) = StockDataPublisher_removeSubscriber self subscriberId;
          (self'', rs) = sdp_calls self' calls
      in (self'', Removed r # rs))"

fun addedIds :: "pub_return list \<Rightarrow> int list" where
  "addedIds [] = []"
| "addedIds (Added (Some i) # rs) = i # addedIds rs"
| "addedIds (_ # rs) = addedIds rs"

text \<open>
  Every registered id is below the next id to hand out. It holds of a new publisher and
  every registration call keeps it.
\<close>

definition sdp_fresh :: "StockDataPublisher \<Rightarrow> bool" where
  "sdp_fresh self = (\<forall>k. sdp_subscribers self k \<noteq> None \<longrightarrow> k < sdp_nextId self)"

section \<open>datafeed/backtestEngine.py\<close>

text \<open>
  Dates are fixed-width digit strings (\<open>%Y%m%d\<close>) or date objects in the source,
  compared with \<open><\<close>; here they are the numbers the digits spell, which orders them
  the same way. Timestamps likewise.
\<close>

type_synonym date = nat

text \<open>A row of the frame the datafeed function returns.\<close>

record DataRow =
  r_secId :: secId
  tradeDate :: date
  timestamp :: nat
  r_price :: real

text \<open>
  \<open>subscribers\<close> is a dict; the publisher iterates over it, so it is kept as the list
  of its items in the dict's order.
\<close>

record BacktestDataPublisher =
  bdp_subscribers :: "(int \<times> Subscriber) list"
  bdp_nextId :: int
  bdp_datafeed :: "secId set \<Rightarrow> date \<Rightarrow> date \<Rightarrow> DataRow list"

definition init_BacktestDataPublisher ::
  "(secId set \<Rightarrow> date \<Rightarrow> date \<Rightarrow> DataRow list) \<Rightarrow> BacktestDataPublisher" where
  "init_BacktestDataPublisher datafeed =
     \<lparr>bdp_subscribers = [], bdp_nextId = 1, bdp_datafeed = datafeed\<rparr>"

definition BacktestDataPublisher_addSubscriber ::
  "BacktestDataPublisher \<Rightarrow> Subscriber \<Rightarrow> BacktestDataPublisher \<times> int" where
  "BacktestDataPublisher_addSubscriber self subscriber =
     (let subId = bdp_nextId self
      in (self\<lparr>bdp_nextId := bdp_nextId self + 1,
               bdp_subscribers := bdp_subscribers self @ [(subId, subscriber)]\<rparr>, subId))"

text \<open>What a subscriber receives: an \<open>openMarket\<close> call or an \<open>onData\<close> call.\<close>

datatype event = OpenMarket Subscriber date | OnData Subscriber "DataRow list"

definition BacktestDataPublisher_openMarket :: "BacktestDataPublisher \<Rightarrow> date \<Rightarrow> event list" where
  "BacktestDataPublisher_openMarket self asOfDate =
     map (\<lambda>(_, s). OpenMarket s asOfDate) (bdp_subscribers self)"

definition BacktestDataPublisher_notifyAll ::
  "BacktestDataPublisher \<Rightarrow> DataRow list \<Rightarrow> event list" where
  "BacktestDataPublisher_notifyAll self data =
     (if length (bdp_subscribers self) > 0
      then map (\<lambda>(_, s). OnData s data) (bdp_subscribers self) else [])"

text \<open>
  The replay loop of \<open>connect\<close>, as the calls it makes on the publisher itself.
  \<open>data.groupby( 'tradeDate' )\<close> keeps, for each date, the rows of that date in their
  order in the frame; the dates are walked in \<open>sorted\<close> order. Iterating a
  \<open>groupby( 'timestamp' )\<close> yields the groups in ascending key order, each with its rows
  in frame order.
\<close>

datatype publisher_call = OpenMarketCall date | NotifyAllCall "DataRow list"

definition replayDate :: "DataRow list \<Rightarrow> date \<Rightarrow> publisher_call list" where
  "replayDate data asOfDate =
     (let ddf = filter (\<lambda>r. tradeDate r = asOfDate) data
      in OpenMarketCall asOfDate
           # map (\<lambda>ts. NotifyAllCall (filter (\<lambda>r. timestamp r = ts) ddf))
               (sort (remdups (map timestamp ddf))))"

definition replay :: "DataRow list \<Rightarrow> publisher_call list" where
  "replay data = concat (map (replayDate data) (sort (remdups (map tradeDate data))))"

fun perform :: "BacktestDataPublisher \<Rightarrow> publisher_call \<Rightarrow> event list" where
  "perform self (OpenMarketCall asOfDate) = BacktestDataPublisher_openMarket self asOfDate"
| "perform self (NotifyAllCall subdf) = BacktestDataPublisher_notifyAll self subdf"

text \<open>
  \<open>connect( startDate, endDate )\<close>: the union of the subscribed topics goes to the
  datafeed function, and its rows are replayed. The field set the source also collects
  is only written to the debug log. The result is the sequence of calls the subscribers
  receive.
\<close>

definition BacktestDataPublisher_connect ::
  "BacktestDataPublisher \<Rightarrow> date \<Rightarrow> date \<Rightarrow> event list" where
  "BacktestDataPublisher_connect self startDate endDate =
     (let topics = (\<Union>(_, s) \<in> set (bdp_subscribers self). set (getSubscribedTopics s));
          data = bdp_datafeed self topics startDate endDate
      in concat (map (perform self) (replay data)))"

text \<open>Projections of a call sequence and of what one subscriber receives.\<close>

fun openDates :: "publisher_call list \<Rightarrow> date list" where
  "openDates [] = []"
| "openDates (OpenMarketCall d # cs) = d # openDates cs"
| "openDates (NotifyAllCall b # cs) = openDates cs"

fun batches :: "publisher_call list \<Rightarrow> DataRow list list" where
  "batches [] = []"
| "batches (OpenMarketCall d # cs) = batches cs"
| "batches (NotifyAllCall b # cs) = b # batches cs"

fun ev_subscriber :: "event \<Rightarrow> Subscriber" where
  "ev_subscriber (OpenMarket s d) = s"
| "ev_subscriber (OnData s b) = s"

fun ev_call :: "event \<Rightarrow> publisher_call" where
  "ev_call (OpenMarket s d) = OpenMarketCall d"
| "ev_call (OnData s b) = NotifyAllCall b"

definition observed :: "Subscriber \<Rightarrow> event list \<Rightarrow> publisher_call list" where
  "observed s trace = map ev_call (filter (\<lambda>e. ev_subscriber e = s) trace)"

text \<open>How many ids a subscriber is registered under.\<close>

definition registrations :: "BacktestDataPublisher \<Rightarrow> Subscriber \<Rightarrow> nat" where
  "registrations self s = length (filter (\<lambda>(_, s'). s' = s) (bdp_subscribers self))"

text \<open>
  The (date, timestamp) order on calls: a batch is placed by the date and the timestamp
  of its first row, and the market opening of a date comes before the batches of that
  date.
\<close>

fun call_lt :: "publisher_call \<Rightarrow> publisher_call \<Rightarrow> bool" where
  "call_lt (OpenMarketCall d) (OpenMarketCall d') = (d < d')"
| "call_lt (OpenMarketCall d) (NotifyAllCall b) = (d \<le> tradeDate (hd b))"
| "call_lt (NotifyAllCall b) (OpenMarketCall d) = (tradeDate (hd b) < d)"
| "call_lt (NotifyAllCall b) (NotifyAllCall c) =
     (tradeDate (hd b) < tradeDate (hd c)
      \<or> (tradeDate (hd b) = tradeDate (hd c) \<and> timestamp (hd b) < timestamp (hd c)))"

definition call_le :: "publisher_call \<Rightarrow> publisher_call \<Rightarrow> bool" where
  "call_le c c' = (c = c' \<or> call_lt c c')"

text \<open>
  A trace opens first when every \<open>onData\<close> call with a batch of some date comes after
  the \<open>openMarket\<close> calls of that date to all subscribers in \<open>S\<close>; \<open>opened\<close>
  collects the openings seen so far.
\<close>

fun opens_first :: "Subscriber set \<Rightarrow> (Subscriber \<times> date) set \<Rightarrow> event list \<Rightarrow> bool" where
  "opens_first S opened [] = True"
| "opens_first S opened (OpenMarket s d # es) = opens_first S (insert (s, d) opened) es"
| "opens_first S opened (OnData s b # es) =
     ((\<forall>s' \<in> S. (s', tradeDate (hd b)) \<in> opened) \<and> opens_first S opened es)"

section \<open>util/calendar.py\<close>

text \<open>\<open>series.iloc[ i ]\<close>: a negative position counts from the end; IndexError off the range.\<close>

definition iloc :: "'a list \<Rightarrow> int \<Rightarrow> error + 'a" where
  "iloc series i =
     (if 0 \<le> i \<and> i < int (length series) then Inr (series ! nat i)
      else if i < 0 \<and> - i \<le> int (length series)
           then Inr (series ! nat (int (length series) + i))
           else Inl IndexError)"

text \<open>\<open>AShareTradingCalendar\<close>, over its \<open>tradingDates\<close> series.\<close>

definition prevTradingDate :: "date list \<Rightarrow> date \<Rightarrow> int \<Rightarrow> error + date" where
  "prevTradingDate tradingDates asOfDate n =
     (let earlyDates = filter (\<lambda>d. d < asOfDate) tradingDates
      in if length earlyDates > 0 then iloc earlyDates (- n)
         else Inl (DateTooEarly asOfDate))"

definition nextTradingDate :: "date list \<Rightarrow> date \<Rightarrow> int \<Rightarrow> error + date" where
  "nextTradingDate tradingDates sinceDate n =
     (let laterDates = filter (\<lambda>d. d \<ge> sinceDate) tradingDates
      in if length laterDates > 1 then iloc laterDates n
         else Inl (DateTooEarly sinceDate))"

section \<open>strats/stockStrategy.py\<close>

text \<open>
  The state of a \<open>StockStrategy\<close> that \<open>adjustPosition\<close> reads: the book, the
  adjustment frequency, the calendar's trading dates, the suspension table (instrument
  and suspension date per row), the delisting series (delisting date per instrument)
  and the data source's daily data, as the (instrument, close) pairs of a date range.
\<close>

record StockStrategy =
  ss_position :: PortfolioPosition
  ss_freq :: int
  ss_tradingDates :: "date list"
  ss_suspendingDates :: "(secId \<times> date) list"
  ss_delistedStocks :: "(secId \<times> date) list"
  ss_getStockDailyData :: "date \<Rightarrow> date \<Rightarrow> (secId \<times> real) list"

text \<open>
  The reference prices frame given to \<open>adjustPosition\<close>: indexed by instrument (one
  row each), with named columns of finite floats.
\<close>

record RefPrices =
  rp_columns :: "string list"
  rp_rows :: "(secId \<times> (string \<Rightarrow> real)) list"

text \<open>\<open>refPrices.NAME\<close> and \<open>refPrices[ name ]\<close>: the column as a series, or a raise.\<close>

definition attr :: "RefPrices \<Rightarrow> string \<Rightarrow> error + (secId \<times> real) list" where
  "attr refPrices name =
     (if name \<in> set (rp_columns refPrices)
      then Inr (map (\<lambda>(s, row). (s, row name)) (rp_rows refPrices))
      else Inl (AttributeError name))"

definition item :: "RefPrices \<Rightarrow> string \<Rightarrow> error + (secId \<times> real) list" where
  "item refPrices name =
     (if name \<in> set (rp_columns refPrices)
      then Inr (map (\<lambda>(s, row). (s, row name)) (rp_rows refPrices))
      else Inl (KeyError name))"

text \<open>\<open>series.ix[ label ]\<close>.\<close>

definition ix :: "(secId \<times> 'a) list \<Rightarrow> secId \<Rightarrow> error + 'a" where
  "ix series label =
     (case map_of series label of Some v \<Rightarrow> Inr v | None \<Rightarrow> Inl (KeyError label))"

definition getSuspendingStocks :: "StockStrategy \<Rightarrow> date \<Rightarrow> secId set" where
  "getSuspendingStocks self asOfDate =
     set (map fst (filter (\<lambda>(s, d). d = asOfDate) (ss_suspendingDates self)))"

text \<open>
  The limit tests read five columns, in the order \<open>S_DQ_HIGH\<close>, \<open>S_DQ_OPEN\<close>,
  \<open>S_DQ_CLOSE\<close>, \<open>S_DQ_LOW\<close>, \<open>S_DQ_PCTCHANGE\<close>; the first one missing raises.
\<close>

definition limitColumns :: "string list" where
  "limitColumns = [''S_DQ_HIGH'', ''S_DQ_OPEN'', ''S_DQ_CLOSE'', ''S_DQ_LOW'', ''S_DQ_PCTCHANGE'']"

fun firstMissing :: "RefPrices \<Rightarrow> string list \<Rightarrow> string option" where
  "firstMissing refPrices [] = None"
| "firstMissing refPrices (name # names) =
     (if name \<in> set (rp_columns refPrices) then firstMissing refPrices names else Some name)"

definition getUpLimitStocks :: "RefPrices \<Rightarrow> error + secId set" where
  "getUpLimitStocks refPrices =
     (case firstMissing refPrices limitColumns of
        Some name \<Rightarrow> Inl (AttributeError name)
      | None \<Rightarrow>
          Inr (set (map fst (filter
                 (\<lambda>(s, row). row ''S_DQ_HIGH'' = row ''S_DQ_OPEN''
                             \<and> row ''S_DQ_OPEN'' = row ''S_DQ_CLOSE''
                             \<and> row ''S_DQ_CLOSE'' = row ''S_DQ_LOW''
                             \<and> row ''S_DQ_PCTCHANGE'' > 0)
                 (rp_rows refPrices)))))"

definition getDownLimitStocks :: "RefPrices \<Rightarrow> error + secId set" where
  "getDownLimitStocks refPrices =
     (case firstMissing refPrices limitColumns of
        Some name \<Rightarrow> Inl (AttributeError name)
      | None \<Rightarrow>
          Inr (set (map fst (filter
                 (\<lambda>(s, row). row ''S_DQ_HIGH'' = row ''S_DQ_OPEN''
                             \<and> row ''S_DQ_OPEN'' = row ''S_DQ_CLOSE''
                             \<and> row ''S_DQ_CLOSE'' = row ''S_DQ_LOW''
                             \<and> row ''S_DQ_PCTCHANGE'' < 0)
                 (rp_rows refPrices)))))"

text \<open>
  The first statements of \<open>adjustPosition\<close> on the weights series:
  \<open>weights[ weights >= 0 ]\<close>, then the infinities replaced by \<open>nan\<close> and the \<open>nan\<close>
  dropped, then the division by the sum when asked for and the series is not empty.
\<close>

fun nonneg :: "pyfloat \<Rightarrow> bool" where
  "nonneg (Fin a) = (a \<ge> 0)"
| "nonneg PosInf = True"
| "nonneg NegInf = False"
| "nonneg NaN = False"

definition cleanWeights :: "(secId \<times> pyfloat) list \<Rightarrow> (secId \<times> pyfloat) list" where
  "cleanWeights weights =
     (let kept = filter (\<lambda>(s, w). nonneg w) weights;
          replaced = map (\<lambda>(s, w). (s, if w = PosInf \<or> w = NegInf then NaN else w)) kept
      in filter (\<lambda>(s, w). w \<noteq> NaN) replaced)"

definition normalise_weights :: "(secId \<times> pyfloat) list \<Rightarrow> bool \<Rightarrow> (secId \<times> pyfloat) list" where
  "normalise_weights weights normalizeWeights =
     (if length weights > 0 \<and> normalizeWeights
      then (let total = foldl fadd (Fin 0) (map snd weights)
            in map (\<lambda>(s, w). (s, fdiv w total)) weights)
      else weights)"

text \<open>
  What \<open>adjustPosition\<close> has computed when it reaches the order loops: the weights, the
  capital to spread, and the three sets of instruments.
\<close>

record plan =
  p_weights :: "(secId \<times> pyfloat) list"
  p_totalAsset :: real
  p_stocksToSell :: "secId set"
  p_stocksToBuy :: "secId set"
  p_stocksToUpdate :: "secId set"

definition adjustPosition_plan ::
  "StockStrategy \<Rightarrow> date \<Rightarrow> (secId \<times> pyfloat) list \<Rightarrow> RefPrices \<Rightarrow> real \<Rightarrow> bool \<Rightarrow> bool
     \<Rightarrow> error + plan" where
  "adjustPosition_plan self asOfDate weights0 refPrices positionRate normalizeWeights enableSab =
     (let weights = normalise_weights (cleanWeights weights0) normalizeWeights
      in case prevTradingDate (ss_tradingDates self) asOfDate 1 of
           Inl e \<Rightarrow> Inl e
         | Inr prevDate \<Rightarrow>
       (case nextTradingDate (ss_tradingDates self) asOfDate (ss_freq self) of
           Inl e \<Rightarrow> Inl e
         | Inr nextDate \<Rightarrow>
       (let prevCloseInfo = ss_getStockDailyData self prevDate prevDate;
            suspendingStocks = getSuspendingStocks self asOfDate;
            totalAsset = positionRate
                           * getTotalAsset (ss_position self) (Some prevCloseInfo)
                               (Some suspendingStocks);
            stocksInBook = getStocksInBook (ss_position self);
            stocksToHold = set (map fst weights);
            stocksToDelist =
              set (map fst (filter (\<lambda>(s, d). d \<le> nextDate) (ss_delistedStocks self)));
            stocksForceSell = stocksInBook \<inter> stocksToDelist
        in case getUpLimitStocks refPrices of
             Inl e \<Rightarrow> Inl e
           | Inr stocksCannotBuy \<Rightarrow>
         (case getDownLimitStocks refPrices of
             Inl e \<Rightarrow> Inl e
           | Inr stocksCannotSell \<Rightarrow>
             Inr (if enableSab
                  then \<lparr>p_weights = weights, p_totalAsset = totalAsset,
                        p_stocksToSell = stocksInBook - suspendingStocks - stocksCannotSell,
                        p_stocksToBuy = stocksToHold - suspendingStocks - stocksToDelist
                                          - stocksCannotBuy,
                        p_stocksToUpdate = {}\<rparr>
                  else \<lparr>p_weights = weights, p_totalAsset = totalAsset,
                        p_stocksToSell = (stocksInBook - stocksToHold - suspendingStocks
                                            - stocksCannotSell) \<union> stocksForceSell,
                        p_stocksToBuy = stocksToHold - stocksInBook - suspendingStocks
                                          - stocksToDelist - stocksCannotBuy,
                        p_stocksToUpdate = stocksToHold \<inter> stocksInBook - suspendingStocks
                                             - stocksToDelist - stocksCannotSell
                                             - stocksCannotBuy\<rparr>)))))"

text \<open>A reference column: \<open>S_DQ_CLOSE\<close> unless a column name is given.\<close>

definition refColumn :: "RefPrices \<Rightarrow> string option \<Rightarrow> error + (secId \<times> real) list" where
  "refColumn refPrices name =
     (case name of None \<Rightarrow> attr refPrices ''S_DQ_CLOSE'' | Some c \<Rightarrow> item refPrices c)"

text \<open>A loop whose body may raise: the first raise ends it.\<close>

fun collect :: "('a \<Rightarrow> error + 'b) \<Rightarrow> 'a list \<Rightarrow> error + 'b list" where
  "collect f [] = Inr []"
| "collect f (x # xs) =
     (case f x of
        Inl e \<Rightarrow> Inl e
      | Inr y \<Rightarrow> (case collect f xs of Inl e \<Rightarrow> Inl e | Inr ys \<Rightarrow> Inr (y # ys)))"

text \<open>The bodies of the three order loops.\<close>

definition sellOrder :: "StockStrategy \<Rightarrow> (secId \<times> real) list \<Rightarrow> secId \<Rightarrow> error + Order" where
  "sellOrder self sellRefPrices stock =
     (case getPosition (ss_position self) stock of
        Inl e \<Rightarrow> Inl e
      | Inr held \<Rightarrow>
          (case ix sellRefPrices stock of
             Inl e \<Rightarrow> Inl e
           | Inr price \<Rightarrow> Inr (mkOrder stock SELL held price)))"

definition monetaryVolume :: "plan \<Rightarrow> bool \<Rightarrow> secId \<Rightarrow> error + pyfloat" where
  "monetaryVolume p useWeightCapital stock =
     (case ix (p_weights p) stock of
        Inl e \<Rightarrow> Inl e
      | Inr w \<Rightarrow> Inr (if useWeightCapital then w else fmul (Fin (p_totalAsset p)) w))"

definition buyOrder :: "plan \<Rightarrow> bool \<Rightarrow> (secId \<times> real) list \<Rightarrow> secId \<Rightarrow> error + Order" where
  "buyOrder p useWeightCapital buyRefPrices stock =
     (case monetaryVolume p useWeightCapital stock of
        Inl e \<Rightarrow> Inl e
      | Inr money \<Rightarrow>
          (case ix buyRefPrices stock of
             Inl e \<Rightarrow> Inl e
           | Inr vwap \<Rightarrow>
               (case roundVolume (fdiv money (Fin vwap)) 100 of
                  Inl e \<Rightarrow> Inl e
                | Inr volume \<Rightarrow> Inr (mkOrder stock BUY volume vwap))))"

definition updateOrder ::
  "StockStrategy \<Rightarrow> plan \<Rightarrow> bool \<Rightarrow> (secId \<times> real) list \<Rightarrow> secId \<Rightarrow> error + Order option" where
  "updateOrder self p useWeightCapital updateRefPrices stock =
     (case monetaryVolume p useWeightCapital stock of
        Inl e \<Rightarrow> Inl e
      | Inr money \<Rightarrow>
          (case ix updateRefPrices stock of
             Inl e \<Rightarrow> Inl e
           | Inr vwap \<Rightarrow>
               (case roundVolume (fdiv money (Fin vwap)) 100 of
                  Inl e \<Rightarrow> Inl e
                | Inr targetVolume \<Rightarrow>
                    (case getPosition (ss_position self) stock of
                       Inl e \<Rightarrow> Inl e
                     | Inr held \<Rightarrow>
                         (let diffVolume = targetVolume - held
                          in if diffVolume \<noteq> 0
                             then (if diffVolume > 0
                                   then Inr (Some (mkOrder stock BUY diffVolume vwap))
                                   else Inr (Some (mkOrder stock SELL (- diffVolume) vwap)))
                             else Inr None)))))"

fun emitted :: "'a option \<Rightarrow> 'a list" where
  "emitted None = []"
| "emitted (Some x) = [x]"

text \<open>
  \<open>adjustPosition\<close>. The three loops run over Python sets, whose iteration order the
  language leaves open; \<open>iter\<close> is that order, a parameter of the model. \<open>sorted\<close> is
  stable, as \<open>sort_key\<close> is.
\<close>

definition adjustPosition ::
  "(secId set \<Rightarrow> secId list) \<Rightarrow> StockStrategy \<Rightarrow> date \<Rightarrow> (secId \<times> pyfloat) list \<Rightarrow> RefPrices
     \<Rightarrow> real \<Rightarrow> bool \<Rightarrow> string option \<Rightarrow> string option \<Rightarrow> string option \<Rightarrow> bool \<Rightarrow> bool
     \<Rightarrow> error + Order list" where
  "adjustPosition iter self asOfDate weights refPrices positionRate useWeightCapital
       sellRefColumn buyRefColumn updateRefColumn normalizeWeights enableSab =
     (case adjustPosition_plan self asOfDate weights refPrices positionRate normalizeWeights
             enableSab of
        Inl e \<Rightarrow> Inl e
      | Inr p \<Rightarrow>
     (case refColumn refPrices sellRefColumn of
        Inl e \<Rightarrow> Inl e
      | Inr sellRefPrices \<Rightarrow>
     (case refColumn refPrices buyRefColumn of
        Inl e \<Rightarrow> Inl e
      | Inr buyRefPrices \<Rightarrow>
     (case refColumn refPrices updateRefColumn of
        Inl e \<Rightarrow> Inl e
      | Inr updateRefPrices \<Rightarrow>
     (case collect (sellOrder self sellRefPrices) (iter (p_stocksToSell p)) of
        Inl e \<Rightarrow> Inl e
      | Inr sells \<Rightarrow>
     (case collect (buyOrder p useWeightCapital buyRefPrices) (iter (p_stocksToBuy p)) of
        Inl e \<Rightarrow> Inl e
      | Inr buys \<Rightarrow>
     (case collect (updateOrder self p useWeightCapital updateRefPrices)
             (iter (p_stocksToUpdate p)) of
        Inl e \<Rightarrow> Inl e
      | Inr updates \<Rightarrow>
          Inr (sort_key o_side (sells @ buys @ concat (map emitted updates))))))))))"

text \<open>
  The sell set in the words of the specification, to compare with the one the code
  computes: held, and not targeted or suspended or at the down limit or forced out by a
  delisting.
\<close>

definition spec_sell :: "secId set \<Rightarrow> secId set \<Rightarrow> secId set \<Rightarrow> secId set \<Rightarrow> secId set \<Rightarrow> secId set" where
  "spec_sell held targeted suspended downLimit delisting =
     {s \<in> held. s \<notin> targeted \<or> s \<in> suspended \<or> s \<in> downLimit \<or> s \<in> delisting}"

section \<open>Properties of the position book\<close>

lemma map_of_overwrite:
  "map_of (map (\<lambda>(k', r). if k' = k then (k', row) else (k', r)) df) x =
     (if x = k then (case map_of df k of None \<Rightarrow> None | Some _ \<Rightarrow> Some row) else map_of df x)"
  by (induction df) (auto split: option.splits)

lemma map_of_setRow: "map_of (setRow df k row) = (map_of df)(k \<mapsto> row)"
  by (auto simp: setRow_def fun_eq_iff map_of_overwrite map_add_def split: option.splits)

lemma map_of_dropRow: "map_of (dropRow df k) = (map_of df)(k := None)"
  unfolding dropRow_def by (induction df) (auto simp: fun_eq_iff)

lemma py_int_nonneg: "0 \<le> x \<Longrightarrow> py_int x = \<lfloor>x\<rfloor>"
  by (simp add: py_int_def)

lemma pow2_pos: "0 < pow2 e"
  by (simp add: pow2_def)

lemma round_half_even_nonneg: "0 \<le> x \<Longrightarrow> 0 \<le> round_half_even x"
  by (simp add: round_half_even_def Let_def)

lemma round_double_nonneg: "0 \<le> x \<Longrightarrow> 0 \<le> round_double x"
  unfolding round_double_def Let_def
  by (intro mult_nonneg_nonneg) (simp_all add: round_half_even_nonneg pow2_pos less_imp_le)

lemma dint_nonneg: "0 \<le> n \<Longrightarrow> 0 \<le> dint n"
  by (simp add: dint_def round_double_nonneg)

lemma dmul_nonneg: "0 \<le> a \<Longrightarrow> 0 \<le> b \<Longrightarrow> 0 \<le> dmul a b"
  by (simp add: dmul_def round_double_nonneg)

lemma ddiv_nonneg: "0 \<le> a \<Longrightarrow> 0 \<le> b \<Longrightarrow> 0 \<le> ddiv a b"
  by (simp add: ddiv_def round_double_nonneg)

lemmas double_eval =
  round_double_def binade_def binade_up.simps binade_down.simps pow2_def round_half_even_def
  dadd_def dsub_def dmul_def ddiv_def dint_def py_int_def

lemma adjustPrice_examples:
  "adjustPrice 1000 29 0 0 (29 / 100) 1 = (1028, 1)"
  "adjustPrice 100 1000 0 0 (7 / 10) 1 = (107, 993)"
  "adjustPrice 1000 28 0 0 (29 / 100) 1 = (1000, 28)"
  "adjustPrice 1000 20 (1 / 2) 0 (29 / 100) 1 = (1000, 70)"
  "adjustPrice 100 121 5 2 3 4 = (150, 51)"
  unfolding adjustPrice_def Let_def by (simp_all add: double_eval)

text \<open>
  Claim C10. The affordability test of the rights issue reads the cash balance the call
  was given, before the dividend of the same call is credited, and it is strict: the
  allotment is bought exactly when that balance is greater than the cost, the double
  product of the allotment and the issue price. At equality the purchase is skipped, and
  a balance that only exceeds the cost once the dividend is added is skipped as well.
\<close>

theorem adjustPrice_rights_test_pre_dividend:
  fixes position :: int and c divid bonusRate issue issuePrice :: real
  shows
  "(let before = round_double c;
        unit = py_int (ddiv (dint position) 10);
        bonus = py_int (dmul (dint unit) (round_double bonusRate));
        allotment = py_int (dmul (round_double issue) (dint unit));
        cost = dmul (dint allotment) (round_double issuePrice);
        credited = dadd before (dmul (round_double divid) (dint unit))
    in adjustPrice position c divid bonusRate issue issuePrice =
         (if before > cost then (position + bonus + allotment, dsub credited cost)
          else (position + bonus, credited))
       \<and> (before = cost \<longrightarrow>
            adjustPrice position c divid bonusRate issue issuePrice =
              (position + bonus, credited))
       \<and> (before \<le> cost \<and> cost < credited \<longrightarrow>
            adjustPrice position c divid bonusRate issue issuePrice =
              (position + bonus, credited)))"
  by (simp add: adjustPrice_def Let_def)

theorem adjustPrice_rights_test_pre_dividend_witness:
  "adjustPrice 1000 29 0 0 (29 / 100) 1 = (1028, 1)
   \<and> adjustPrice 1000 28 0 0 (29 / 100) 1 = (1000, 28)
   \<and> adjustPrice 1000 20 (1 / 2) 0 (29 / 100) 1 = (1000, 70)
   \<and> adjustPrice 100 1000 0 0 (7 / 10) 1 = (107, 993)"
  using adjustPrice_rights_test_pre_dividend
      [where position=1000 and c=29 and divid=0 and bonusRate=0 and issue="29 / 100"
         and issuePrice=1]
    adjustPrice_rights_test_pre_dividend
      [where position=1000 and c=28 and divid=0 and bonusRate=0 and issue="29 / 100"
         and issuePrice=1]
    adjustPrice_rights_test_pre_dividend
      [where position=1000 and c=20 and divid="1 / 2" and bonusRate=0 and issue="29 / 100"
         and issuePrice=1]
  by (simp only: adjustPrice_examples)

text \<open>
  Claim C3. For a held instrument with non-negative volume \<open>v\<close>, book cash \<open>c\<close> and
  non-negative bonus and issue ratios, in the double arithmetic of the program:
  \<open>adjustPrice\<close> takes \<open>unit = floor (v / 10)\<close>, credits \<open>dividend10 * unit\<close>, adds
  \<open>floor (unit * right10)\<close> bonus shares, and subscribes to the whole allotment
  \<open>floor (rightIssue10 * unit)\<close> at the issue price exactly when \<open>c\<close> (the cash the
  call started with) is greater than its cost, and to nothing otherwise; no other row
  changes. For an instrument that is not held the book is returned as it was and one
  warning is logged.
\<close>

theorem PortfolioPosition_adjustPrice_spec:
  fixes self :: PortfolioPosition
  shows
  "(\<forall>secPos. map_of (book self) secId = Some secPos \<and> 0 \<le> Volume secPos
        \<and> 0 \<le> bonusRate \<and> 0 \<le> issue \<longrightarrow>
      (let v = Volume secPos; c = round_double (cash self);
           unit = \<lfloor>ddiv (dint v) 10\<rfloor>;
           bonus = \<lfloor>dmul (dint unit) (round_double bonusRate)\<rfloor>;
           allotment = \<lfloor>dmul (round_double issue) (dint unit)\<rfloor>;
           cost = dmul (dint allotment) (round_double issuePrice);
           credited = dadd c (dmul (round_double divid) (dint unit));
           subscribe = (c > cost);
           self' = fst (PortfolioPosition_adjustPrice self secId divid bonusRate
                          issue issuePrice)
       in map_of (book self') secId =
            Some (secPos\<lparr>Volume := v + bonus + (if subscribe then allotment else 0)\<rparr>)
          \<and> cash self' = (if subscribe then dsub credited cost else credited)
          \<and> (\<forall>k. k \<noteq> secId \<longrightarrow> map_of (book self') k = map_of (book self) k)))
   \<and> (map_of (book self) secId = None \<longrightarrow>
        PortfolioPosition_adjustPrice self secId divid bonusRate issue issuePrice
          = (self, [NotInBook secId]))"
proof (intro conjI allI impI)
  fix secPos
  assume h: "map_of (book self) secId = Some secPos \<and> 0 \<le> Volume secPos
        \<and> 0 \<le> bonusRate \<and> 0 \<le> issue"
  have u: "py_int (ddiv (dint (Volume secPos)) 10) = \<lfloor>ddiv (dint (Volume secPos)) 10\<rfloor>"
    using h by (simp add: py_int_nonneg ddiv_nonneg dint_nonneg)
  have u0: "0 \<le> \<lfloor>ddiv (dint (Volume secPos)) 10\<rfloor>"
    using h by (simp add: ddiv_nonneg dint_nonneg)
  have b: "py_int (dmul (dint \<lfloor>ddiv (dint (Volume secPos)) 10\<rfloor>) (round_double bonusRate))
             = \<lfloor>dmul (dint \<lfloor>ddiv (dint (Volume secPos)) 10\<rfloor>) (round_double bonusRate)\<rfloor>"
    using h u0 by (simp add: py_int_nonneg dmul_nonneg dint_nonneg round_double_nonneg)
  have a: "py_int (dmul (round_double issue) (dint \<lfloor>ddiv (dint (Volume secPos)) 10\<rfloor>))
             = \<lfloor>dmul (round_double issue) (dint \<lfloor>ddiv (dint (Volume secPos)) 10\<rfloor>)\<rfloor>"
    using h u0 by (simp add: py_int_nonneg dmul_nonneg dint_nonneg round_double_nonneg)
  show "(let v = Volume secPos; c = round_double (cash self);
           unit = \<lfloor>ddiv (dint v) 10\<rfloor>;
           bonus = \<lfloor>dmul (dint unit) (round_double bonusRate)\<rfloor>;
           allotment = \<lfloor>dmul (round_double issue) (dint unit)\<rfloor>;
           cost = dmul (dint allotment) (round_double issuePrice);
           credited = dadd c (dmul (round_double divid) (dint unit));
           subscribe = (c > cost);
           self' = fst (PortfolioPosition_adjustPrice self secId divid bonusRate
                          issue issuePrice)
       in map_of (book self') secId =
            Some (secPos\<lparr>Volume := v + bonus + (if subscribe then allotment else 0)\<rparr>)
          \<and> cash self' = (if subscribe then dsub credited cost else credited)
          \<and> (\<forall>k. k \<noteq> secId \<longrightarrow> map_of (book self') k = map_of (book self) k))"
    using h
    by (simp add: PortfolioPosition_adjustPrice_def adjustPrice_def u b a map_of_setRow Let_def)
next
  assume "map_of (book self) secId = None"
  then show "PortfolioPosition_adjustPrice self secId divid bonusRate issue issuePrice
          = (self, [NotInBook secId])"
    by (simp add: PortfolioPosition_adjustPrice_def)
qed

theorem PortfolioPosition_adjustPrice_spec_witness:
  "(let self = \<lparr>book = [(''X'', \<lparr>Price = Fin 50, Volume = 1000\<rparr>)], cash = 29\<rparr>;
        self' = fst (PortfolioPosition_adjustPrice self ''X'' 0 0 (29 / 100) 1)
    in map_of (book self') ''X'' = Some \<lparr>Price = Fin 50, Volume = 1028\<rparr> \<and> cash self' = 1
       \<and> PortfolioPosition_adjustPrice self ''Y'' 0 0 (29 / 100) 1 = (self, [NotInBook ''Y'']))"
proof -
  let ?self = "\<lparr>book = [(''X'', \<lparr>Price = Fin 50, Volume = 1000\<rparr>)], cash = 29\<rparr>"
  have run: "PortfolioPosition_adjustPrice ?self ''X'' 0 0 (29 / 100) 1
               = (\<lparr>book = [(''X'', \<lparr>Price = Fin 50, Volume = 1028\<rparr>)], cash = 1\<rparr>, [])"
    by (simp add: PortfolioPosition_adjustPrice_def adjustPrice_examples setRow_def)
  show ?thesis
    unfolding Let_def
    using PortfolioPosition_adjustPrice_spec
        [where self="?self" and secId="''X''" and divid=0 and bonusRate=0
           and issue="29 / 100" and issuePrice=1]
      PortfolioPosition_adjustPrice_spec
        [where self="?self" and secId="''Y''" and divid=0 and bonusRate=0
           and issue="29 / 100" and issuePrice=1]
    by (simp add: run)
qed


text \<open>
  Claim C5. \<open>deletePosition\<close> is total. It returns the book unchanged when the
  instrument is not held. When it is held with volume \<open>h\<close>, the amount sold is
  \<open>min volume h\<close> (with a warning when \<open>volume > h\<close>), the held volume drops by it,
  cash grows by \<open>price * clamped - commision\<close>, and the row disappears exactly when
  the remaining volume is zero; other rows stay. Selling the 100 shares of X bought in the
  scenario of C4 at 55 with commission 10 empties the book and leaves cash 100480.
\<close>

theorem deletePosition_spec:
  fixes self :: PortfolioPosition and price commision :: real and volume :: int
  shows
  "(map_of (book self) secId = None \<longrightarrow>
      deletePosition self secId price volume commision = (self, []))
   \<and> (\<forall>secPos. map_of (book self) secId = Some secPos \<longrightarrow>
        (let h = Volume secPos;
             clamped = min volume h;
             self' = fst (deletePosition self secId price volume commision);
             warns = snd (deletePosition self secId price volume commision)
         in cash self' = cash self + (price * real_of_int clamped - commision)
            \<and> map_of (book self') secId =
                 (if h - clamped = 0 then None else Some (secPos\<lparr>Volume := h - clamped\<rparr>))
            \<and> (\<forall>k. k \<noteq> secId \<longrightarrow> map_of (book self') k = map_of (book self) k)
            \<and> warns = (if volume > h then [NotEnoughHoldings secId volume price h] else [])))
   \<and> deletePosition (addPosition inPlace (init_PortfolioPosition 100000) ''X'' 50 100 10)
         ''X'' 55 100 10 = (\<lparr>book = [], cash = 100480\<rparr>, [])"
proof (intro conjI allI impI)
  assume "map_of (book self) secId = None"
  then show "deletePosition self secId price volume commision = (self, [])"
    by (simp add: deletePosition_def)
next
  fix secPos
  assume h: "map_of (book self) secId = Some secPos"
  show "(let h = Volume secPos;
             clamped = min volume h;
             self' = fst (deletePosition self secId price volume commision);
             warns = snd (deletePosition self secId price volume commision)
         in cash self' = cash self + (price * real_of_int clamped - commision)
            \<and> map_of (book self') secId =
                 (if h - clamped = 0 then None else Some (secPos\<lparr>Volume := h - clamped\<rparr>))
            \<and> (\<forall>k. k \<noteq> secId \<longrightarrow> map_of (book self') k = map_of (book self) k)
            \<and> warns = (if volume > h then [NotEnoughHoldings secId volume price h] else []))"
  proof (cases "volume > Volume secPos")
    case True
    then have m: "min volume (Volume secPos) = Volume secPos" by simp
    show ?thesis using h True
      by (simp add: deletePosition_def Let_def m map_of_dropRow)
  next
    case False
    then have m: "min volume (Volume secPos) = volume" by simp
    show ?thesis using h False
      by (auto simp add: deletePosition_def Let_def m map_of_dropRow map_of_setRow)
  qed
next
  show "deletePosition (addPosition inPlace (init_PortfolioPosition 100000) ''X'' 50 100 10)
         ''X'' 55 100 10 = (\<lparr>book = [], cash = 100480\<rparr>, [])"
    by (simp add: deletePosition_def addPosition_def init_PortfolioPosition_def
        dropRow_def setRow_def Let_def)
qed

theorem deletePosition_spec_witness:
  "(let self = \<lparr>book = [(''X'', \<lparr>Price = Fin 50, Volume = 100\<rparr>)], cash = 94990\<rparr>
    in deletePosition self ''Y'' 55 100 10 = (self, [])
       \<and> cash (fst (deletePosition self ''X'' 55 250 10)) = 100480
       \<and> map_of (book (fst (deletePosition self ''X'' 55 250 10))) ''X'' = None
       \<and> snd (deletePosition self ''X'' 55 250 10) = [NotEnoughHoldings ''X'' 250 55 100]
       \<and> cash (fst (deletePosition self ''X'' 55 40 10)) = 97180
       \<and> map_of (book (fst (deletePosition self ''X'' 55 40 10))) ''X''
            = Some \<lparr>Price = Fin 50, Volume = 60\<rparr>)"
  using deletePosition_spec
      [where self="\<lparr>book = [(''X'', \<lparr>Price = Fin 50, Volume = 100\<rparr>)], cash = 94990\<rparr>"
         and secId="''Y''" and price=55 and volume=100 and commision=10]
    deletePosition_spec
      [where self="\<lparr>book = [(''X'', \<lparr>Price = Fin 50, Volume = 100\<rparr>)], cash = 94990\<rparr>"
         and secId="''X''" and price=55 and volume=250 and commision=10]
    deletePosition_spec
      [where self="\<lparr>book = [(''X'', \<lparr>Price = Fin 50, Volume = 100\<rparr>)], cash = 94990\<rparr>"
         and secId="''X''" and price=55 and volume=40 and commision=10]
  by (simp add: Let_def)

section \<open>Properties of the execution engines\<close>

lemma be_placeAll_nextId:
  "be_nextId (be_placeAll self orders) = be_nextId self + int (length orders)"
  by (induction orders arbitrary: self)
     (simp_all add: BacktestExecutionEngine_placeOrder_def Let_def)

lemma be_placeAll_dom:
  "dom (be_executedOrders (be_placeAll self orders)) =
     dom (be_executedOrders self) \<union> {be_nextId self ..< be_nextId self + int (length orders)}"
proof (induction orders arbitrary: self)
  case Nil
  then show ?case by simp
next
  case (Cons a orders)
  show ?case
    by (simp add: Cons.IH BacktestExecutionEngine_placeOrder_def Let_def) auto
qed

lemma sbe_placeAll_dom:
  "dom (sbe_executedOrders (sbe_placeAll self orders)) =
     dom (sbe_executedOrders self) \<union> {sbe_nextId self ..< sbe_nextId self + int (length orders)}
   \<and> sbe_nextId (sbe_placeAll self orders) = sbe_nextId self + int (length orders)"
proof (induction orders arbitrary: self)
  case Nil
  then show ?case by simp
next
  case (Cons a orders)
  show ?case
    by (simp add: Cons.IH StockBacktestExecutionEngine_placeOrder_def Let_def) auto
qed

text \<open>
  Claim C2, as amended. After any sequence of \<open>placeOrder\<close> calls on a fresh engine
  the ids handed out are \<open>1, ..., length orders\<close>. For every other id
  \<open>queryOrder\<close> fails with the unknown-order error, in both backtest engines.
  \<open>cancelOrder\<close> does not look at the id: it returns a status whose only field is
  \<open>EXECUTED\<close>, for every id, placed or not.
\<close>

theorem unknown_order_id:
  "(orderId \<notin> {1 ..< 1 + int (length orders)} \<longrightarrow>
      BacktestExecutionEngine_queryOrder
          (be_placeAll (init_BacktestExecutionEngine rate impact refData) orders) orderId
        = Inl (OrderNotFound orderId)
      \<and> StockBacktestExecutionEngine_queryOrder
          (sbe_placeAll (init_StockBacktestExecutionEngine rate impact) orders) orderId
        = Inl (OrderNotFound orderId))
   \<and> BacktestExecutionEngine_cancelOrder
          (be_placeAll (init_BacktestExecutionEngine rate impact refData) orders) orderId
        = Inr (statusOnly EXECUTED)
   \<and> StockBacktestExecutionEngine_cancelOrder
          (sbe_placeAll (init_StockBacktestExecutionEngine rate impact) orders) orderId
        = Inr (statusOnly EXECUTED)"
proof -
  have d1: "dom (be_executedOrders
               (be_placeAll (init_BacktestExecutionEngine rate impact refData) orders))
             = {1 ..< 1 + int (length orders)}"
    by (simp add: be_placeAll_dom init_BacktestExecutionEngine_def)
  have d2: "dom (sbe_executedOrders
               (sbe_placeAll (init_StockBacktestExecutionEngine rate impact) orders))
             = {1 ..< 1 + int (length orders)}"
    by (simp add: sbe_placeAll_dom init_StockBacktestExecutionEngine_def)
  have q1: "BacktestExecutionEngine_queryOrder
          (be_placeAll (init_BacktestExecutionEngine rate impact refData) orders) orderId
        = Inl (OrderNotFound orderId)" if "orderId \<notin> {1 ..< 1 + int (length orders)}"
  proof -
    from that d1 have "be_executedOrders
        (be_placeAll (init_BacktestExecutionEngine rate impact refData) orders) orderId = None"
      by (metis domIff)
    then show ?thesis by (simp add: BacktestExecutionEngine_queryOrder_def)
  qed
  have q2: "StockBacktestExecutionEngine_queryOrder
          (sbe_placeAll (init_StockBacktestExecutionEngine rate impact) orders) orderId
        = Inl (OrderNotFound orderId)" if "orderId \<notin> {1 ..< 1 + int (length orders)}"
  proof -
    from that d2 have "sbe_executedOrders
        (sbe_placeAll (init_StockBacktestExecutionEngine rate impact) orders) orderId = None"
      by (metis domIff)
    then show ?thesis by (simp add: StockBacktestExecutionEngine_queryOrder_def)
  qed
  show ?thesis
    using q1 q2
    by (simp add: BacktestExecutionEngine_cancelOrder_def
        StockBacktestExecutionEngine_cancelOrder_def)
qed

theorem unknown_order_id_witness:
  "BacktestExecutionEngine_queryOrder
      (be_placeAll (init_BacktestExecutionEngine (1 / 1000) 2 baseRefData)
         [mkOrder ''X'' BUY 100 10]) 2 = Inl (OrderNotFound 2)
   \<and> StockBacktestExecutionEngine_queryOrder
      (sbe_placeAll (init_StockBacktestExecutionEngine (1 / 1000) 2)
         [mkOrder ''X'' BUY 100 10]) 0 = Inl (OrderNotFound 0)
   \<and> BacktestExecutionEngine_cancelOrder
      (be_placeAll (init_BacktestExecutionEngine (1 / 1000) 2 baseRefData)
         [mkOrder ''X'' BUY 100 10]) 2 = Inr (statusOnly EXECUTED)"
  using unknown_order_id [where orderId=2 and orders="[mkOrder ''X'' BUY 100 10]"
        and rate="1 / 1000" and impact=2 and refData=baseRefData]
    unknown_order_id [where orderId=0 and orders="[mkOrder ''X'' BUY 100 10]"
        and rate="1 / 1000" and impact=2 and refData=baseRefData]
  by simp

text \<open>
  Claim C2 as stated fails for \<open>cancelOrder\<close>: on a fresh engine no order has the id 7,
  and cancelling it returns a status instead of the unknown-order error.
\<close>

theorem cancelOrder_unknown_id_counterexample:
  "be_executedOrders (init_BacktestExecutionEngine (1 / 1000) 2 baseRefData) 7 = None
   \<and> BacktestExecutionEngine_cancelOrder
        (init_BacktestExecutionEngine (1 / 1000) 2 baseRefData) 7 = Inr (statusOnly EXECUTED)
   \<and> BacktestExecutionEngine_cancelOrder
        (init_BacktestExecutionEngine (1 / 1000) 2 baseRefData) 7 \<noteq> Inl (OrderNotFound 7)"
  by (simp add: BacktestExecutionEngine_cancelOrder_def init_BacktestExecutionEngine_def)

text \<open>
  Claim C6. The status \<open>placeOrder\<close> hands to the fill callback, which is also what
  \<open>queryOrder\<close> reports for the new id, has the executed price
  \<open>price + direction * tickSize * marketImpact\<close> with direction 1 for BUY and -1 for
  SELL, and the commission \<open>executedPrice * volume * lotSize * commisionRate\<close>. The
  stock engine has the tick size 0.01 and the lot size 1 built in; the general engine
  reads both from the reference data. With tick size 0.01, market impact 2 and price 10 a
  BUY executes at 10.02 and a SELL at 9.98.
\<close>

theorem fill_price_and_commission:
  fixes order :: Order
  shows
  "(let direction = (if o_side order = BUY then 1 else - 1 :: int);
        eff = o_price order + real_of_int direction * (1 / 100) * real_of_int (sbe_marketImpact self);
        fill = \<lparr>s_orderStatus = Some EXECUTED, s_secId = Some (o_secId order),
                s_executedPrice = Some eff,
                s_commision = Some (eff * real_of_int (o_volume order) * 1 * sbe_commisionRate self),
                s_orderDirection = Some direction, s_orderSize = Some (o_volume order)\<rparr>
    in snd (StockBacktestExecutionEngine_placeOrder self order) = Inr (sbe_nextId self, fill)
       \<and> StockBacktestExecutionEngine_queryOrder
            (fst (StockBacktestExecutionEngine_placeOrder self order)) (sbe_nextId self) = Inr fill
       \<and> (o_side order = BUY \<longrightarrow> direction = 1)
       \<and> (o_side order = SELL \<longrightarrow> direction = - 1))
   \<and> (getTickSize (be_refData engine) (o_secId order) = Inr tickSize
           \<and> getLotSize (be_refData engine) (o_secId order) = Inr lotSize \<longrightarrow>
         (let direction = (if o_side order = BUY then 1 else - 1 :: int);
              eff = o_price order
                      + real_of_int direction * tickSize * real_of_int (be_marketImpact engine);
              fill = \<lparr>s_orderStatus = Some EXECUTED, s_secId = Some (o_secId order),
                      s_executedPrice = Some eff,
                      s_commision = Some (eff * real_of_int (o_volume order) * lotSize
                                            * be_commisionRate engine),
                      s_orderDirection = Some direction, s_orderSize = Some (o_volume order)\<rparr>
          in snd (BacktestExecutionEngine_placeOrder engine order) = Inr (be_nextId engine, fill)
             \<and> BacktestExecutionEngine_queryOrder
                  (fst (BacktestExecutionEngine_placeOrder engine order)) (be_nextId engine)
                 = Inr fill))
   \<and> map_sum id (s_executedPrice \<circ> snd)
         (snd (StockBacktestExecutionEngine_placeOrder
                 (init_StockBacktestExecutionEngine rate 2) (mkOrder secId BUY volume 10)))
       = Inr (Some (1002 / 100))
   \<and> map_sum id (s_executedPrice \<circ> snd)
         (snd (StockBacktestExecutionEngine_placeOrder
                 (init_StockBacktestExecutionEngine rate 2) (mkOrder secId SELL volume 10)))
       = Inr (Some (998 / 100))
   \<and> map_sum id (s_executedPrice \<circ> snd)
         (snd (BacktestExecutionEngine_placeOrder
                 (init_BacktestExecutionEngine rate 2 baseRefData) (mkOrder secId BUY volume 10)))
       = Inr (Some (1002 / 100))
   \<and> map_sum id (s_executedPrice \<circ> snd)
         (snd (BacktestExecutionEngine_placeOrder
                 (init_BacktestExecutionEngine rate 2 baseRefData) (mkOrder secId SELL volume 10)))
       = Inr (Some (998 / 100))"
  by (simp add: Let_def StockBacktestExecutionEngine_placeOrder_def
      StockBacktestExecutionEngine_queryOrder_def BacktestExecutionEngine_placeOrder_def
      BacktestExecutionEngine_queryOrder_def init_StockBacktestExecutionEngine_def
      init_BacktestExecutionEngine_def baseRefData_def mkOrder_def BUY_def SELL_def)

theorem fill_price_and_commission_witness:
  "snd (BacktestExecutionEngine_placeOrder
          (init_BacktestExecutionEngine (1 / 1000) 2 baseRefData) (mkOrder ''X'' SELL 100 10))
     = Inr (1, \<lparr>s_orderStatus = Some EXECUTED, s_secId = Some ''X'',
                 s_executedPrice = Some (998 / 100), s_commision = Some (998 / 1000),
                 s_orderDirection = Some (- 1), s_orderSize = Some 100\<rparr>)
   \<and> snd (StockBacktestExecutionEngine_placeOrder
          (init_StockBacktestExecutionEngine (1 / 1000) 2) (mkOrder ''X'' BUY 100 10))
     = Inr (1, \<lparr>s_orderStatus = Some EXECUTED, s_secId = Some ''X'',
                 s_executedPrice = Some (1002 / 100), s_commision = Some (1002 / 1000),
                 s_orderDirection = Some 1, s_orderSize = Some 100\<rparr>)"
  using fill_price_and_commission
      [where order="mkOrder ''X'' SELL 100 10"
         and engine="init_BacktestExecutionEngine (1 / 1000) 2 baseRefData"
         and tickSize="1 / 100" and lotSize=1
         and self="init_StockBacktestExecutionEngine (1 / 1000) 2"]
    fill_price_and_commission
      [where order="mkOrder ''X'' BUY 100 10"
         and engine="init_BacktestExecutionEngine (1 / 1000) 2 baseRefData"
         and tickSize="1 / 100" and lotSize=1
         and self="init_StockBacktestExecutionEngine (1 / 1000) 2"]
  by (simp add: Let_def init_StockBacktestExecutionEngine_def
      init_BacktestExecutionEngine_def baseRefData_def mkOrder_def BUY_def SELL_def)

section \<open>Properties of the stock data publisher\<close>

lemma addSubscriber_fields:
  "sdp_nextId (fst (StockDataPublisher_addSubscriber self subscriber))
     = (if subscriber = None then sdp_nextId self else sdp_nextId self + 1)"
  "sdp_subscribers (fst (StockDataPublisher_addSubscriber self subscriber))
     = (case subscriber of None \<Rightarrow> sdp_subscribers self
        | Some s \<Rightarrow> (sdp_subscribers self)(sdp_nextId self \<mapsto> s))"
  "snd (StockDataPublisher_addSubscriber self subscriber)
     = (if subscriber = None then None else Some (sdp_nextId self))"
  by (simp_all add: StockDataPublisher_addSubscriber_def Let_def split: option.splits)

lemma removeSubscriber_fields:
  "sdp_nextId (fst (StockDataPublisher_removeSubscriber self subscriberId)) = sdp_nextId self"
  "sdp_subscribers (fst (StockDataPublisher_removeSubscriber self subscriberId))
     = (sdp_subscribers self)(subscriberId := None)"
  by (auto simp add: StockDataPublisher_removeSubscriber_def Let_def fun_eq_iff
      split: option.splits prod.splits)

lemma removeSubscriber_ok_known:
  "snd (StockDataPublisher_removeSubscriber self subscriberId) = Inr u
     \<Longrightarrow> sdp_subscribers self subscriberId \<noteq> None"
  by (auto simp add: StockDataPublisher_removeSubscriber_def split: option.splits)

lemma sdp_fresh_add:
  "sdp_fresh self \<Longrightarrow> sdp_fresh (fst (StockDataPublisher_addSubscriber self subscriber))"
  by (cases subscriber) (auto simp add: sdp_fresh_def addSubscriber_fields split: if_splits)

lemma sdp_fresh_remove:
  "sdp_fresh self \<Longrightarrow> sdp_fresh (fst (StockDataPublisher_removeSubscriber self i))"
  by (auto simp add: sdp_fresh_def removeSubscriber_fields split: if_splits)

lemma sdp_calls_Add:
  "sdp_calls self (AddSubscriber subscriber # calls) =
     (fst (sdp_calls (fst (StockDataPublisher_addSubscriber self subscriber)) calls),
      Added (snd (StockDataPublisher_addSubscriber self subscriber))
        # snd (sdp_calls (fst (StockDataPublisher_addSubscriber self subscriber)) calls))"
  by (simp add: case_prod_unfold Let_def)

lemma sdp_calls_Remove:
  "sdp_calls self (RemoveSubscriber subscriberId # calls) =
     (fst (sdp_calls (fst (StockDataPublisher_removeSubscriber self subscriberId)) calls),
      Removed (snd (StockDataPublisher_removeSubscriber self subscriberId))
        # snd (sdp_calls (fst (StockDataPublisher_removeSubscriber self subscriberId)) calls))"
  by (simp add: case_prod_unfold Let_def)

declare sdp_calls.simps(2) [simp del] sdp_calls.simps(3) [simp del]

lemma sdp_calls_nextId_mono: "sdp_nextId self \<le> sdp_nextId (fst (sdp_calls self calls))"
proof (induction calls arbitrary: self)
  case Nil
  then show ?case by simp
next
  case (Cons c calls)
  show ?case
  proof (cases c)
    case (AddSubscriber subscriber)
    have "sdp_nextId self \<le> sdp_nextId (fst (StockDataPublisher_addSubscriber self subscriber))"
      by (simp add: addSubscriber_fields)
    also have "\<dots> \<le> sdp_nextId (fst (sdp_calls (fst (StockDataPublisher_addSubscriber self subscriber)) calls))"
      by (rule Cons.IH)
    finally show ?thesis by (simp add: AddSubscriber sdp_calls_Add)
  next
    case (RemoveSubscriber subscriberId)
    show ?thesis
      using Cons.IH [of "fst (StockDataPublisher_removeSubscriber self subscriberId)"]
      by (simp add: RemoveSubscriber sdp_calls_Remove removeSubscriber_fields)
  qed
qed

lemma sdp_calls_addedIds:
  "sorted_wrt (<) (addedIds (snd (sdp_calls self calls)))
   \<and> (\<forall>i \<in> set (addedIds (snd (sdp_calls self calls))).
         sdp_nextId self \<le> i \<and> i < sdp_nextId (fst (sdp_calls self calls)))"
proof (induction calls arbitrary: self)
  case Nil
  then show ?case by simp
next
  case (Cons c calls)
  show ?case
  proof (cases c)
    case (AddSubscriber subscriber)
    let ?a = "StockDataPublisher_addSubscriber self subscriber"
    note IH = Cons.IH [of "fst ?a"]
    have mono: "sdp_nextId (fst ?a) \<le> sdp_nextId (fst (sdp_calls (fst ?a) calls))"
      by (rule sdp_calls_nextId_mono)
    show ?thesis
    proof (cases subscriber)
      case None
      with IH show ?thesis by (simp add: AddSubscriber sdp_calls_Add addSubscriber_fields)
    next
      case (Some s)
      with IH mono show ?thesis
        by (auto simp add: AddSubscriber sdp_calls_Add addSubscriber_fields)
    qed
  next
    case (RemoveSubscriber subscriberId)
    show ?thesis
      using Cons.IH [of "fst (StockDataPublisher_removeSubscriber self subscriberId)"]
      by (simp add: RemoveSubscriber sdp_calls_Remove removeSubscriber_fields)
  qed
qed

lemma sdp_calls_unknown_stays:
  "sdp_fresh self \<Longrightarrow> sdp_subscribers self i = None \<Longrightarrow> i < sdp_nextId self
     \<Longrightarrow> sdp_subscribers (fst (sdp_calls self calls)) i = None"
proof (induction calls arbitrary: self)
  case Nil
  then show ?case by simp
next
  case (Cons c calls)
  show ?case
  proof (cases c)
    case (AddSubscriber subscriber)
    let ?a = "StockDataPublisher_addSubscriber self subscriber"
    have "sdp_fresh (fst ?a)" using Cons.prems(1) by (rule sdp_fresh_add)
    moreover have "sdp_subscribers (fst ?a) i = None" using Cons.prems(2,3)
      by (simp add: addSubscriber_fields split: option.splits)
    moreover have "i < sdp_nextId (fst ?a)" using Cons.prems(3)
      by (simp add: addSubscriber_fields)
    ultimately have "sdp_subscribers (fst (sdp_calls (fst ?a) calls)) i = None"
      by (rule Cons.IH)
    then show ?thesis by (simp add: AddSubscriber sdp_calls_Add)
  next
    case (RemoveSubscriber subscriberId)
    let ?a = "StockDataPublisher_removeSubscriber self subscriberId"
    have "sdp_fresh (fst ?a)" using Cons.prems(1) by (rule sdp_fresh_remove)
    moreover have "sdp_subscribers (fst ?a) i = None" using Cons.prems(2)
      by (simp add: removeSubscriber_fields)
    moreover have "i < sdp_nextId (fst ?a)" using Cons.prems(3)
      by (simp add: removeSubscriber_fields)
    ultimately have "sdp_subscribers (fst (sdp_calls (fst ?a) calls)) i = None"
      by (rule Cons.IH)
    then show ?thesis by (simp add: RemoveSubscriber sdp_calls_Remove)
  qed
qed

lemma sdp_calls_fresh: "sdp_fresh self \<Longrightarrow> sdp_fresh (fst (sdp_calls self calls))"
proof (induction calls arbitrary: self)
  case Nil
  then show ?case by simp
next
  case (Cons c calls)
  show ?case
  proof (cases c)
    case (AddSubscriber subscriber)
    show ?thesis
      using Cons.IH [OF sdp_fresh_add [OF Cons.prems, of subscriber]]
      by (simp add: AddSubscriber sdp_calls_Add)
  next
    case (RemoveSubscriber subscriberId)
    show ?thesis
      using Cons.IH [OF sdp_fresh_remove [OF Cons.prems, of subscriberId]]
      by (simp add: RemoveSubscriber sdp_calls_Remove)
  qed
qed

lemma sdp_fresh_init: "sdp_fresh init_StockDataPublisher"
  by (simp add: sdp_fresh_def init_StockDataPublisher_def)

text \<open>
  Claim C8. Over any sequence of \<open>addSubscriber\<close> and \<open>removeSubscriber\<close> calls on a
  new publisher, the ids returned for subscribers that are not \<open>None\<close> are strictly
  increasing, hence never handed out twice. When \<open>removeSubscriber( id )\<close> then
  succeeds, \<open>notify( id, data )\<close> fails with the unknown-subscriber error right away
  and after any further registration calls, none of which returns that id again.
\<close>

theorem subscriber_ids_increase_and_removed_stay_unknown:
  "sorted_wrt (<) (addedIds (snd (sdp_calls init_StockDataPublisher calls)))
   \<and> distinct (addedIds (snd (sdp_calls init_StockDataPublisher calls)))
   \<and> (let before = fst (sdp_calls init_StockDataPublisher calls);
           removed = StockDataPublisher_removeSubscriber before subscriberId;
           after = fst (sdp_calls (fst removed) later)
       in snd removed = Inr () \<longrightarrow>
            StockDataPublisher_notify (fst removed) subscriberId data
              = Inl (SubscriberNotFound subscriberId)
            \<and> StockDataPublisher_notify after subscriberId data
              = Inl (SubscriberNotFound subscriberId)
            \<and> subscriberId \<notin> set (addedIds (snd (sdp_calls (fst removed) later))))"
proof -
  let ?before = "fst (sdp_calls init_StockDataPublisher calls)"
  let ?removed = "StockDataPublisher_removeSubscriber ?before subscriberId"
  have s: "sorted_wrt (<) (addedIds (snd (sdp_calls init_StockDataPublisher calls)))"
    using sdp_calls_addedIds by blast
  then have d: "distinct (addedIds (snd (sdp_calls init_StockDataPublisher calls)))"
    by (simp add: strict_sorted_iff)
  have fb: "sdp_fresh ?before" by (rule sdp_calls_fresh [OF sdp_fresh_init])
  have rest: "StockDataPublisher_notify (fst ?removed) subscriberId data
              = Inl (SubscriberNotFound subscriberId)
            \<and> StockDataPublisher_notify (fst (sdp_calls (fst ?removed) later)) subscriberId data
              = Inl (SubscriberNotFound subscriberId)
            \<and> subscriberId \<notin> set (addedIds (snd (sdp_calls (fst ?removed) later)))"
    if ok: "snd ?removed = Inr ()"
  proof -
    have known: "sdp_subscribers ?before subscriberId \<noteq> None"
      using ok by (rule removeSubscriber_ok_known)
    with fb have lt: "subscriberId < sdp_nextId ?before" by (simp add: sdp_fresh_def)
    have fr: "sdp_fresh (fst ?removed)" using fb by (rule sdp_fresh_remove)
    have gone: "sdp_subscribers (fst ?removed) subscriberId = None"
      by (simp add: removeSubscriber_fields)
    have lt': "subscriberId < sdp_nextId (fst ?removed)"
      using lt by (simp add: removeSubscriber_fields)
    have later: "sdp_subscribers (fst (sdp_calls (fst ?removed) later)) subscriberId = None"
      using fr gone lt' by (rule sdp_calls_unknown_stays)
    have notin: "subscriberId \<notin> set (addedIds (snd (sdp_calls (fst ?removed) later)))"
      using sdp_calls_addedIds [of "fst ?removed" later] lt' by auto
    show ?thesis using gone later notin by (simp add: StockDataPublisher_notify_def)
  qed
  show ?thesis unfolding Let_def using s d rest by blast
qed

theorem subscriber_ids_increase_and_removed_stay_unknown_witness:
  "addedIds (snd (sdp_calls init_StockDataPublisher
      [AddSubscriber (Some \<lparr>subscriberName = ''a'', getSubscribedTopics = [''X''],
                               getSubscribedDataFields = None\<rparr>),
       AddSubscriber None,
       AddSubscriber (Some \<lparr>subscriberName = ''b'', getSubscribedTopics = [''X'', ''Y''],
                               getSubscribedDataFields = None\<rparr>)])) = [1, 2]
   \<and> snd (StockDataPublisher_removeSubscriber (fst (sdp_calls init_StockDataPublisher
      [AddSubscriber (Some \<lparr>subscriberName = ''a'', getSubscribedTopics = [''X''],
                               getSubscribedDataFields = None\<rparr>),
       AddSubscriber None,
       AddSubscriber (Some \<lparr>subscriberName = ''b'', getSubscribedTopics = [''X'', ''Y''],
                               getSubscribedDataFields = None\<rparr>)])) 1) = Inr ()
   \<and> StockDataPublisher_notify
        (fst (sdp_calls
           (fst (StockDataPublisher_removeSubscriber (fst (sdp_calls init_StockDataPublisher
      [AddSubscriber (Some \<lparr>subscriberName = ''a'', getSubscribedTopics = [''X''],
                               getSubscribedDataFields = None\<rparr>),
       AddSubscriber None,
       AddSubscriber (Some \<lparr>subscriberName = ''b'', getSubscribedTopics = [''X'', ''Y''],
                               getSubscribedDataFields = None\<rparr>)])) 1))
           [AddSubscriber (Some \<lparr>subscriberName = ''a'', getSubscribedTopics = [''X''],
                               getSubscribedDataFields = None\<rparr>)])) 1 (0::nat)
       = Inl (SubscriberNotFound 1)"
proof -
  let ?a = "\<lparr>subscriberName = ''a'', getSubscribedTopics = [''X''],
                               getSubscribedDataFields = None\<rparr>"
  let ?b = "\<lparr>subscriberName = ''b'', getSubscribedTopics = [''X'', ''Y''],
                               getSubscribedDataFields = None\<rparr>"
  let ?calls = "[AddSubscriber (Some ?a), AddSubscriber None, AddSubscriber (Some ?b)]"
  have ids: "addedIds (snd (sdp_calls init_StockDataPublisher ?calls)) = [1, 2]"
    by (simp add: sdp_calls_Add addSubscriber_fields init_StockDataPublisher_def)
  have ok: "snd (StockDataPublisher_removeSubscriber
                   (fst (sdp_calls init_StockDataPublisher ?calls)) 1) = Inr ()"
    by (simp add: sdp_calls_Add StockDataPublisher_removeSubscriber_def
        StockDataPublisher_addSubscriber_def init_StockDataPublisher_def Let_def)
  show ?thesis
    using subscriber_ids_increase_and_removed_stay_unknown
      [where calls="?calls" and subscriberId=1 and data="0::nat"
         and later="[AddSubscriber (Some ?a)]"] ids ok
    by (simp add: Let_def)
qed

section \<open>Properties of the backtest replay\<close>

lemma strict_sort_remdups: "sorted_wrt (<) (sort (remdups (xs :: nat list)))"
  by (simp add: strict_sorted_iff)

lemma sorted_wrt_concat_map:
  fixes xs :: "nat list"
  assumes "sorted_wrt (<) xs"
    and "\<And>x. x \<in> set xs \<Longrightarrow> sorted_wrt R (f x)"
    and "\<And>x y a b. x \<in> set xs \<Longrightarrow> y \<in> set xs \<Longrightarrow> x < y \<Longrightarrow> a \<in> set (f x) \<Longrightarrow> b \<in> set (f y) \<Longrightarrow> R a b"
  shows "sorted_wrt R (concat (map f xs))"
  using assms
proof (induction xs)
  case Nil
  then show ?case by simp
next
  case (Cons x xs)
  have "sorted_wrt R (concat (map f xs))"
  proof (rule Cons.IH)
    show "sorted_wrt (<) xs" using Cons.prems(1) by simp
    show "sorted_wrt R (f y)" if "y \<in> set xs" for y using that Cons.prems(2) by simp
    show "R a b" if "y \<in> set xs" "z \<in> set xs" "y < z" "a \<in> set (f y)" "b \<in> set (f z)"
      for y z a b using that Cons.prems(3) [of y z a b] by simp
  qed
  moreover have "sorted_wrt R (f x)" using Cons.prems(2) by simp
  moreover have "R a b" if "a \<in> set (f x)" "b \<in> set (concat (map f xs))" for a b
  proof -
    from that(2) obtain y where y: "y \<in> set xs" "b \<in> set (f y)" by auto
    with Cons.prems(1) have "x < y" by auto
    with Cons.prems(3) [of x y a b] y that(1) show ?thesis by simp
  qed
  ultimately show ?case by (simp add: sorted_wrt_append)
qed

lemma group_hd:
  assumes "t \<in> timestamp ` {r \<in> set data. tradeDate r = d}"
  shows "filter (\<lambda>r. tradeDate r = d \<and> timestamp r = t) data \<noteq> []"
    and "tradeDate (hd (filter (\<lambda>r. tradeDate r = d \<and> timestamp r = t) data)) = d"
    and "timestamp (hd (filter (\<lambda>r. tradeDate r = d \<and> timestamp r = t) data)) = t"
proof -
  let ?b = "filter (\<lambda>r. tradeDate r = d \<and> timestamp r = t) data"
  show ne: "?b \<noteq> []" using assms by (auto simp add: filter_empty_conv)
  then have "hd ?b \<in> set ?b" by (rule hd_in_set)
  then show "tradeDate (hd ?b) = d" "timestamp (hd ?b) = t" by auto
qed

lemma openDates_append: "openDates (xs @ ys) = openDates xs @ openDates ys"
  by (induction xs rule: openDates.induct) auto

lemma batches_append: "batches (xs @ ys) = batches xs @ batches ys"
  by (induction xs rule: batches.induct) auto

lemma openDates_concat: "openDates (concat xss) = concat (map openDates xss)"
  by (induction xss) (auto simp: openDates_append)

lemma batches_concat: "batches (concat xss) = concat (map batches xss)"
  by (induction xss) (auto simp: batches_append)

lemma openDates_map_Notify: "openDates (map (\<lambda>t. NotifyAllCall (g t)) ts) = []"
  by (induction ts) auto

lemma batches_map_Notify: "batches (map (\<lambda>t. NotifyAllCall (g t)) ts) = map g ts"
  by (induction ts) auto

lemma openDates_replayDate: "openDates (replayDate data d) = [d]"
  by (simp add: replayDate_def Let_def openDates_map_Notify)

lemma batches_replayDate:
  "batches (replayDate data d) =
     map (\<lambda>t. filter (\<lambda>r. timestamp r = t) (filter (\<lambda>r. tradeDate r = d) data))
       (sort (remdups (map timestamp (filter (\<lambda>r. tradeDate r = d) data))))"
  by (simp add: replayDate_def Let_def batches_map_Notify)

lemma openDates_replay: "openDates (replay data) = sort (remdups (map tradeDate data))"
  by (simp add: replay_def openDates_concat comp_def openDates_replayDate)

lemma replayDate_calls:
  "set (replayDate data d) =
     insert (OpenMarketCall d)
       ((\<lambda>t. NotifyAllCall (filter (\<lambda>r. tradeDate r = d \<and> timestamp r = t) data))
          ` timestamp ` {r \<in> set data. tradeDate r = d})"
  by (auto simp add: replayDate_def Let_def)

lemma replayDate_dates:
  assumes "c \<in> set (replayDate data d)"
  shows "case c of OpenMarketCall d' \<Rightarrow> d' = d
         | NotifyAllCall b \<Rightarrow> b \<noteq> [] \<and> tradeDate (hd b) = d
             \<and> b = filter (\<lambda>r. tradeDate r = tradeDate (hd b) \<and> timestamp r = timestamp (hd b)) data"
proof (cases c)
  case (OpenMarketCall d')
  with assms show ?thesis by (auto simp add: replayDate_calls)
next
  case (NotifyAllCall b)
  with assms obtain t where t: "t \<in> timestamp ` {r \<in> set data. tradeDate r = d}"
    and b: "b = filter (\<lambda>r. tradeDate r = d \<and> timestamp r = t) data"
    by (auto simp add: replayDate_calls)
  from group_hd [OF t] b NotifyAllCall show ?thesis by simp
qed

lemma set_batches: "set (batches cs) = {b. NotifyAllCall b \<in> set cs}"
  by (induction cs rule: batches.induct) auto

lemma set_replay:
  "set (replay data) = (\<Union>d \<in> tradeDate ` set data. set (replayDate data d))"
  by (simp add: replay_def)

lemma replay_batches_whole:
  assumes "b \<in> set (batches (replay data))"
  shows "b \<noteq> [] \<and> b = filter (\<lambda>r. tradeDate r = tradeDate (hd b)
                                     \<and> timestamp r = timestamp (hd b)) data"
proof -
  from assms obtain d where "NotifyAllCall b \<in> set (replayDate data d)"
    by (auto simp add: set_batches set_replay)
  from replayDate_dates [OF this] show ?thesis
    by (simp only: publisher_call.case) blast
qed

lemma replay_rows_delivered:
  assumes "r \<in> set data"
  shows "\<exists>b \<in> set (batches (replay data)). r \<in> set b"
proof -
  let ?b = "filter (\<lambda>x. tradeDate x = tradeDate r \<and> timestamp x = timestamp r) data"
  have "NotifyAllCall ?b \<in> set (replayDate data (tradeDate r))"
    using assms by (auto simp add: replayDate_calls)
  then have "?b \<in> set (batches (replay data))"
    using assms by (auto simp add: set_batches set_replay)
  moreover have "r \<in> set ?b" using assms by simp
  ultimately show ?thesis by blast
qed

lemma call_lt_by_date:
  assumes "c \<in> set (replayDate data d)" "c' \<in> set (replayDate data d')" "d < d'"
  shows "call_lt c c'"
  using replayDate_dates [OF assms(1)] replayDate_dates [OF assms(2)] assms(3)
  by (cases c; cases c') auto

lemma sorted_replayDate: "sorted_wrt call_lt (replayDate data d)"
proof -
  let ?g = "\<lambda>t. NotifyAllCall (filter (\<lambda>r. timestamp r = t) (filter (\<lambda>r. tradeDate r = d) data))"
  let ?ts = "sort (remdups (map timestamp (filter (\<lambda>r. tradeDate r = d) data)))"
  have rd: "replayDate data d = OpenMarketCall d # map ?g ?ts"
    by (simp add: replayDate_def Let_def)
  have first: "call_lt (OpenMarketCall d) c" if "c \<in> set (map ?g ?ts)" for c
  proof -
    from that have "c \<in> set (replayDate data d)" by (simp add: rd)
    from replayDate_dates [OF this] that show ?thesis by (cases c) auto
  qed
  have "sorted_wrt (\<lambda>t t'. call_lt (?g t) (?g t')) ?ts"
  proof (rule sorted_wrt_mono_rel [OF _ strict_sort_remdups])
    fix t t' assume t: "t \<in> set ?ts" and t': "t' \<in> set ?ts" and lt: "t < t'"
    from t have m: "t \<in> timestamp ` {r \<in> set data. tradeDate r = d}" by auto
    from t' have m': "t' \<in> timestamp ` {r \<in> set data. tradeDate r = d}" by auto
    from group_hd [OF m] group_hd [OF m'] lt show "call_lt (?g t) (?g t')" by simp
  qed
  then have "sorted_wrt call_lt (map ?g ?ts)" by (simp add: sorted_wrt_map)
  with first show ?thesis by (simp add: rd)
qed

lemma sorted_replay: "sorted_wrt call_lt (replay data)"
  unfolding replay_def
  by (rule sorted_wrt_concat_map [OF strict_sort_remdups])
     (auto intro: sorted_replayDate call_lt_by_date)

lemma observed_append: "observed s (xs @ ys) = observed s xs @ observed s ys"
  by (simp add: observed_def)

lemma observed_concat: "observed s (concat xss) = concat (map (observed s) xss)"
  by (induction xss) (auto simp: observed_append observed_def)

lemma observed_open:
  "observed s (map (\<lambda>(_, s'). OpenMarket s' d) subs)
     = replicate (length (filter (\<lambda>(_, s'). s' = s) subs)) (OpenMarketCall d)"
  by (induction subs) (auto simp: observed_def)

lemma observed_data:
  "observed s (map (\<lambda>(_, s'). OnData s' b) subs)
     = replicate (length (filter (\<lambda>(_, s'). s' = s) subs)) (NotifyAllCall b)"
  by (induction subs) (auto simp: observed_def)

lemma observed_perform: "observed s (perform self c) = replicate (registrations self s) c"
proof (cases c)
  case (OpenMarketCall d)
  then show ?thesis
    by (simp add: BacktestDataPublisher_openMarket_def observed_open registrations_def)
next
  case (NotifyAllCall b)
  show ?thesis
  proof (cases "bdp_subscribers self = []")
    case True
    then show ?thesis
      by (simp add: NotifyAllCall BacktestDataPublisher_notifyAll_def registrations_def
          observed_def)
  next
    case False
    then show ?thesis
      by (simp add: NotifyAllCall BacktestDataPublisher_notifyAll_def observed_data
          registrations_def)
  qed
qed

lemma observed_trace:
  "observed s (concat (map (perform self) cs))
     = concat (map (replicate (registrations self s)) cs)"
  by (simp add: observed_concat comp_def observed_perform)

lemma sorted_replicated:
  "sorted_wrt call_lt cs \<Longrightarrow> sorted_wrt call_le (concat (map (replicate n) cs))"
proof (induction cs)
  case Nil
  then show ?case by simp
next
  case (Cons c cs)
  have "sorted_wrt call_le (replicate n c)"
    by (simp add: sorted_wrt_iff_nth_less call_le_def)
  moreover have "sorted_wrt call_le (concat (map (replicate n) cs))"
    using Cons by simp
  moreover have "call_le a b" if "a \<in> set (replicate n c)"
    "b \<in> set (concat (map (replicate n) cs))" for a b
  proof -
    from that have "a = c" "b \<in> set cs" by auto
    with Cons.prems show ?thesis by (auto simp add: call_le_def)
  qed
  ultimately show ?case by (simp add: sorted_wrt_append)
qed

lemma opens_first_mono:
  "opens_first S opened es \<Longrightarrow> opened \<subseteq> opened' \<Longrightarrow> opens_first S opened' es"
proof (induction S opened es arbitrary: opened' rule: opens_first.induct)
  case (1 S opened)
  then show ?case by simp
next
  case (2 S opened s d es)
  from 2(2,3) have "opens_first S (insert (s, d) opened) es" "insert (s, d) opened \<subseteq> insert (s, d) opened'"
    by auto
  then show ?case using 2(1) by simp
next
  case (3 S opened s b es)
  then show ?case by auto
qed

lemma opens_first_append:
  "opens_first S opened (xs @ ys) =
     (opens_first S opened xs
      \<and> opens_first S (opened \<union> {(s, d). OpenMarket s d \<in> set xs}) ys)"
proof (induction S opened xs rule: opens_first.induct)
  case (1 S opened)
  then show ?case by simp
next
  case (2 S opened s d es)
  have "insert (s, d) opened \<union> {(s, d). OpenMarket s d \<in> set es}
          = opened \<union> {(s', d'). OpenMarket s' d' \<in> set (OpenMarket s d # es)}"
    by auto
  with 2 show ?case by simp
next
  case (3 S opened s b es)
  then show ?case by auto
qed

lemma opens_first_blocks:
  "(\<And>block. block \<in> set blocks \<Longrightarrow> opens_first S {} block)
     \<Longrightarrow> opens_first S opened (concat blocks)"
proof (induction blocks arbitrary: opened)
  case Nil
  then show ?case by simp
next
  case (Cons block blocks)
  have "opens_first S {} block" using Cons.prems by simp
  then have "opens_first S opened block" by (rule opens_first_mono) simp
  moreover have "opens_first S (opened \<union> {(s, d). OpenMarket s d \<in> set block}) (concat blocks)"
    using Cons.prems by (intro Cons.IH) simp
  ultimately show ?case by (simp add: opens_first_append)
qed

lemma opens_first_opens: "opens_first S opened (map (\<lambda>(_, s). OpenMarket s d) subs)"
  by (induction subs arbitrary: opened) auto

lemma opens_first_datas:
  "(\<And>e. e \<in> set es \<Longrightarrow> \<exists>s b. e = OnData s b \<and> (\<forall>s' \<in> S. (s', tradeDate (hd b)) \<in> opened))
     \<Longrightarrow> opens_first S opened es"
proof (induction es)
  case Nil
  then show ?case by simp
next
  case (Cons e es)
  from Cons.prems [of e] obtain s b where
    "e = OnData s b" "\<forall>s' \<in> S. (s', tradeDate (hd b)) \<in> opened" by auto
  moreover have "opens_first S opened es" using Cons.prems by (intro Cons.IH) simp
  ultimately show ?case by simp
qed

lemma in_concat_map: "e \<in> set (concat (map f cs)) \<Longrightarrow> \<exists>c \<in> set cs. e \<in> set (f c)"
  by (induction cs) auto

lemma concat_map_concat_map:
  "concat (map f (concat (map g xs))) = concat (map (\<lambda>x. concat (map f (g x))) xs)"
  by (induction xs) auto

lemma opens_first_replayDate:
  "opens_first (snd ` set (bdp_subscribers self)) {}
     (concat (map (perform self) (replayDate data d)))"
proof -
  let ?S = "snd ` set (bdp_subscribers self)"
  let ?opens = "map (\<lambda>(_, s). OpenMarket s d) (bdp_subscribers self)"
  let ?cs = "map (\<lambda>ts. NotifyAllCall (filter (\<lambda>r. timestamp r = ts)
                 (filter (\<lambda>r. tradeDate r = d) data)))
               (sort (remdups (map timestamp (filter (\<lambda>r. tradeDate r = d) data))))"
  have rd: "replayDate data d = OpenMarketCall d # ?cs"
    by (simp add: replayDate_def Let_def)
  have opened: "\<forall>s' \<in> ?S. (s', d) \<in> {(s, d'). OpenMarket s d' \<in> set ?opens}"
    by force
  have "opens_first ?S ({} \<union> {(s, d'). OpenMarket s d' \<in> set ?opens})
          (concat (map (perform self) ?cs))"
  proof (rule opens_first_datas)
    fix e assume "e \<in> set (concat (map (perform self) ?cs))"
    from in_concat_map [OF this]
    obtain c where c: "c \<in> set ?cs" and e: "e \<in> set (perform self c)" by blast
    from c have "c \<in> set (replayDate data d)" by (simp add: rd)
    from replayDate_dates [OF this] c obtain b where
      b: "c = NotifyAllCall b" "tradeDate (hd b) = d" by (cases c) auto
    from e b obtain s where "e = OnData s b"
      by (auto simp add: BacktestDataPublisher_notifyAll_def split: if_splits)
    with b opened
    show "\<exists>s b. e = OnData s b
            \<and> (\<forall>s' \<in> ?S. (s', tradeDate (hd b)) \<in> {} \<union> {(s, d'). OpenMarket s d' \<in> set ?opens})"
      by auto
  qed
  then show ?thesis
    by (simp add: rd BacktestDataPublisher_openMarket_def opens_first_append opens_first_opens
        del: set_map)
qed

lemma opens_first_replay:
  "opens_first (snd ` set (bdp_subscribers self)) {} (concat (map (perform self) (replay data)))"
proof -
  have "concat (map (perform self) (replay data))
          = concat (map (\<lambda>d. concat (map (perform self) (replayDate data d)))
                      (sort (remdups (map tradeDate data))))"
    by (simp add: replay_def concat_map_concat_map)
  moreover have "opens_first (snd ` set (bdp_subscribers self)) {}
     (concat (map (\<lambda>d. concat (map (perform self) (replayDate data d)))
                      (sort (remdups (map tradeDate data)))))"
    by (rule opens_first_blocks) (auto simp add: opens_first_replayDate)
  ultimately show ?thesis by simp
qed

lemma opens_first_split:
  "opens_first S opened (pre @ OnData s b # post) \<Longrightarrow> s' \<in> S
     \<Longrightarrow> (s', tradeDate (hd b)) \<in> opened \<or> OpenMarket s' (tradeDate (hd b)) \<in> set pre"
  by (auto simp add: opens_first_append)

lemma call_lt_irrefl: "\<not> call_lt c c"
  by (cases c) auto

lemma sorted_call_lt_distinct: "sorted_wrt call_lt cs \<Longrightarrow> distinct cs"
  by (induction cs) (auto simp add: call_lt_irrefl)

lemma distinct_replay: "distinct (replay data)"
  by (rule sorted_call_lt_distinct [OF sorted_replay])

lemma distinct_batches: "distinct cs \<Longrightarrow> distinct (batches cs)"
  by (induction cs rule: batches.induct) (auto simp add: set_batches)


text \<open>
  Claim C9. \<open>connect\<close> replays the rows the datafeed returned, whatever their order.
  The dates are opened in ascending order, each once; the calls on the publisher are
  strictly ascending in (date, timestamp), with the market opening of a date before the
  batches of that date; every \<open>notifyAll\<close> batch is not empty and holds exactly the
  rows that share its date and timestamp, no batch occurs twice and every row is in one.
  A subscriber receives each call once per id it is registered under, so what it
  observes is in non-decreasing (date, timestamp) order; and before any \<open>onData\<close>
  call with a batch of some date, every registered subscriber has had the
  \<open>openMarket\<close> call of that date.
\<close>

theorem replay_in_date_timestamp_order:
  fixes self :: BacktestDataPublisher
  shows
  "(let data = bdp_datafeed self
                 (\<Union>(_, s) \<in> set (bdp_subscribers self). set (getSubscribedTopics s))
                 startDate endDate;
        calls = replay data;
        trace = BacktestDataPublisher_connect self startDate endDate
    in openDates calls = sort (remdups (map tradeDate data))
       \<and> sorted_wrt (<) (openDates calls)
       \<and> sorted_wrt call_lt calls
       \<and> distinct (batches calls)
       \<and> (\<forall>b \<in> set (batches calls).
             b \<noteq> [] \<and> b = filter (\<lambda>r. tradeDate r = tradeDate (hd b)
                                        \<and> timestamp r = timestamp (hd b)) data)
       \<and> (\<forall>r \<in> set data. \<exists>b \<in> set (batches calls). r \<in> set b)
       \<and> (\<forall>s. observed s trace = concat (map (replicate (registrations self s)) calls))
       \<and> (\<forall>s. sorted_wrt call_le (observed s trace))
       \<and> (\<forall>pre s b post s'.
             trace = pre @ OnData s b # post \<and> s' \<in> snd ` set (bdp_subscribers self) \<longrightarrow>
             OpenMarket s' (tradeDate (hd b)) \<in> set pre))"
proof -
  define data where "data = bdp_datafeed self
                 (\<Union>(_, s) \<in> set (bdp_subscribers self). set (getSubscribedTopics s))
                 startDate endDate"
  define trace where "trace = BacktestDataPublisher_connect self startDate endDate"
  have tr: "trace = concat (map (perform self) (replay data))"
    by (simp add: trace_def data_def BacktestDataPublisher_connect_def Let_def)
  have p1: "openDates (replay data) = sort (remdups (map tradeDate data))"
    by (rule openDates_replay)
  have p2: "sorted_wrt (<) (openDates (replay data))"
    unfolding p1 by (rule strict_sort_remdups)
  have p3: "sorted_wrt call_lt (replay data)" by (rule sorted_replay)
  have p4: "distinct (batches (replay data))"
    by (rule distinct_batches [OF distinct_replay])
  have p5: "\<forall>b \<in> set (batches (replay data)).
             b \<noteq> [] \<and> b = filter (\<lambda>r. tradeDate r = tradeDate (hd b)
                                        \<and> timestamp r = timestamp (hd b)) data"
    using replay_batches_whole by blast
  have p6: "\<forall>r \<in> set data. \<exists>b \<in> set (batches (replay data)). r \<in> set b"
    using replay_rows_delivered by blast
  have p7: "\<forall>s. observed s trace = concat (map (replicate (registrations self s)) (replay data))"
    by (simp add: tr observed_trace)
  have p8: "\<forall>s. sorted_wrt call_le (observed s trace)"
    using p7 sorted_replicated [OF p3] by simp
  have p9: "OpenMarket s' (tradeDate (hd b)) \<in> set pre"
    if "trace = pre @ OnData s b # post \<and> s' \<in> snd ` set (bdp_subscribers self)"
    for pre s b post s'
  proof -
    have "opens_first (snd ` set (bdp_subscribers self)) {} (pre @ OnData s b # post)"
      using opens_first_replay [of self data] that by (simp add: tr)
    from opens_first_split [OF this, of s'] that show ?thesis by simp
  qed
  show ?thesis
    unfolding Let_def data_def [symmetric] trace_def [symmetric]
    using p1 p2 p3 p4 p5 p6 p7 p8 p9 by blast
qed

theorem replay_in_date_timestamp_order_witness:
  "(let a = \<lparr>subscriberName = ''a'', getSubscribedTopics = [''X''],
              getSubscribedDataFields = None\<rparr>;
        b = \<lparr>subscriberName = ''b'', getSubscribedTopics = [''X'', ''Y''],
              getSubscribedDataFields = Some [''price'']\<rparr>;
        x3 = \<lparr>r_secId = ''X'', tradeDate = 20170103, timestamp = 930, r_price = 10\<rparr>;
        x2 = \<lparr>r_secId = ''X'', tradeDate = 20170102, timestamp = 1000, r_price = 11\<rparr>;
        y1 = \<lparr>r_secId = ''Y'', tradeDate = 20170102, timestamp = 930, r_price = 20\<rparr>;
        y2 = \<lparr>r_secId = ''Y'', tradeDate = 20170102, timestamp = 1000, r_price = 21\<rparr>;
        self = fst (BacktestDataPublisher_addSubscriber
                 (fst (BacktestDataPublisher_addSubscriber
                    (init_BacktestDataPublisher (\<lambda>topics startDate endDate. [x3, x2, y1, y2]))
                    a)) b);
        calls = [OpenMarketCall 20170102, NotifyAllCall [y1], NotifyAllCall [x2, y2],
                 OpenMarketCall 20170103, NotifyAllCall [x3]]
    in replay [x3, x2, y1, y2] = calls
       \<and> BacktestDataPublisher_connect self 20170101 20170131 =
           [OpenMarket a 20170102, OpenMarket b 20170102, OnData a [y1], OnData b [y1],
            OnData a [x2, y2], OnData b [x2, y2],
            OpenMarket a 20170103, OpenMarket b 20170103, OnData a [x3], OnData b [x3]]
       \<and> sorted_wrt call_lt calls
       \<and> observed a (BacktestDataPublisher_connect self 20170101 20170131) = calls
       \<and> sorted_wrt call_le (observed b (BacktestDataPublisher_connect self 20170101 20170131)))"
proof -
  let ?a = "\<lparr>subscriberName = ''a'', getSubscribedTopics = [''X''],
              getSubscribedDataFields = None\<rparr>"
  let ?b = "\<lparr>subscriberName = ''b'', getSubscribedTopics = [''X'', ''Y''],
              getSubscribedDataFields = Some [''price'']\<rparr>"
  let ?x3 = "\<lparr>r_secId = ''X'', tradeDate = 20170103, timestamp = 930, r_price = 10\<rparr>"
  let ?x2 = "\<lparr>r_secId = ''X'', tradeDate = 20170102, timestamp = 1000, r_price = 11\<rparr>"
  let ?y1 = "\<lparr>r_secId = ''Y'', tradeDate = 20170102, timestamp = 930, r_price = 20\<rparr>"
  let ?y2 = "\<lparr>r_secId = ''Y'', tradeDate = 20170102, timestamp = 1000, r_price = 21\<rparr>"
  let ?self = "fst (BacktestDataPublisher_addSubscriber
                 (fst (BacktestDataPublisher_addSubscriber
                    (init_BacktestDataPublisher (\<lambda>topics startDate endDate. [?x3, ?x2, ?y1, ?y2]))
                    ?a)) ?b)"
  have subs: "bdp_subscribers ?self = [(1, ?a), (2, ?b)]"
    and feed: "bdp_datafeed ?self = (\<lambda>topics startDate endDate. [?x3, ?x2, ?y1, ?y2])"
    by (simp_all add: BacktestDataPublisher_addSubscriber_def init_BacktestDataPublisher_def
        Let_def)
  have r: "replay [?x3, ?x2, ?y1, ?y2] =
      [OpenMarketCall 20170102, NotifyAllCall [?y1], NotifyAllCall [?x2, ?y2],
       OpenMarketCall 20170103, NotifyAllCall [?x3]]"
    by (simp add: replay_def replayDate_def Let_def)
  have regs: "registrations ?self ?a = 1"
    by (simp add: registrations_def subs)
  have c: "BacktestDataPublisher_connect ?self 20170101 20170131 =
      [OpenMarket ?a 20170102, OpenMarket ?b 20170102, OnData ?a [?y1], OnData ?b [?y1],
       OnData ?a [?x2, ?y2], OnData ?b [?x2, ?y2],
       OpenMarket ?a 20170103, OpenMarket ?b 20170103, OnData ?a [?x3], OnData ?b [?x3]]"
    unfolding BacktestDataPublisher_connect_def Let_def feed r
    by (simp add: BacktestDataPublisher_openMarket_def BacktestDataPublisher_notifyAll_def subs)
  note T = replay_in_date_timestamp_order
      [where self="?self" and startDate=20170101 and endDate=20170131,
       unfolded Let_def feed]
  have s1: "sorted_wrt call_lt (replay [?x3, ?x2, ?y1, ?y2])"
    using T by blast
  have s2: "observed ?a (BacktestDataPublisher_connect ?self 20170101 20170131)
              = concat (map (replicate (registrations ?self ?a)) (replay [?x3, ?x2, ?y1, ?y2]))"
    using T by blast
  have s3: "sorted_wrt call_le (observed ?b (BacktestDataPublisher_connect ?self 20170101 20170131))"
    using T by blast
  have s2': "observed ?a (BacktestDataPublisher_connect ?self 20170101 20170131)
              = replay [?x3, ?x2, ?y1, ?y2]"
    unfolding s2 regs r by simp
  show ?thesis
    unfolding Let_def using s1 s2' s3 r c by simp
qed

section \<open>Properties of the rebalancing\<close>

lemma cleanWeights_keys:
  "(s \<in> set (map fst (cleanWeights weights))) = (\<exists>w. (s, Fin w) \<in> set weights \<and> 0 \<le> w)"
proof
  assume "s \<in> set (map fst (cleanWeights weights))"
  then obtain v where v: "(s, v) \<in> set (cleanWeights weights)" by auto
  then obtain w where w: "(s, w) \<in> set weights" "nonneg w"
      "v = (if w = PosInf \<or> w = NegInf then NaN else w)" "v \<noteq> NaN"
    by (auto simp add: cleanWeights_def Let_def)
  then show "\<exists>w. (s, Fin w) \<in> set weights \<and> 0 \<le> w"
    by (cases w) (auto split: if_splits)
next
  assume "\<exists>w. (s, Fin w) \<in> set weights \<and> 0 \<le> w"
  then obtain w where "(s, Fin w) \<in> set weights" "0 \<le> w" by blast
  then have "(s, Fin w) \<in> set (cleanWeights weights)"
    by (force simp add: cleanWeights_def Let_def)
  then show "s \<in> set (map fst (cleanWeights weights))" by force
qed

lemma normalise_keys: "map fst (normalise_weights weights b) = map fst weights"
  by (auto simp add: normalise_weights_def Let_def)


text \<open>
  Claim C1, as amended. In the ordinary mode (not sell-all-before-buy), whenever
  \<open>adjustPosition\<close> reaches its order loops, the three sets are: sell, the held
  instruments that are either neither targeted nor suspended nor at the down limit, or
  delisted by the next adjustment date; buy, the targeted instruments that are not held,
  not suspended, not at the up limit and not about to be delisted; update, the targeted
  and held instruments that are not suspended, not about to be delisted and at neither
  limit. Targeted means a finite weight that is not negative.
\<close>

theorem adjustPosition_partition:
  assumes "adjustPosition_plan self asOfDate weights refPrices positionRate normalizeWeights
             False = Inr p"
  shows "\<exists>nextDate up down.
           nextTradingDate (ss_tradingDates self) asOfDate (ss_freq self) = Inr nextDate
           \<and> getUpLimitStocks refPrices = Inr up
           \<and> getDownLimitStocks refPrices = Inr down
           \<and> (let held = (\<lambda>s. s \<in> getStocksInBook (ss_position self));
                   targeted = (\<lambda>s. \<exists>w. (s, Fin w) \<in> set weights \<and> 0 \<le> w);
                   suspended = (\<lambda>s. (s, asOfDate) \<in> set (ss_suspendingDates self));
                   delisting = (\<lambda>s. \<exists>d. (s, d) \<in> set (ss_delistedStocks self) \<and> d \<le> nextDate);
                   upLimit = (\<lambda>s. s \<in> up);
                   downLimit = (\<lambda>s. s \<in> down)
               in p_stocksToSell p =
                    {s. held s \<and> ((\<not> targeted s \<and> \<not> suspended s \<and> \<not> downLimit s)
                                   \<or> delisting s)}
                  \<and> p_stocksToBuy p =
                    {s. targeted s \<and> \<not> held s \<and> \<not> suspended s \<and> \<not> upLimit s
                        \<and> \<not> delisting s}
                  \<and> p_stocksToUpdate p =
                    {s. targeted s \<and> held s \<and> \<not> suspended s \<and> \<not> delisting s
                        \<and> \<not> downLimit s \<and> \<not> upLimit s})"
proof -
  from assms obtain prevDate nextDate up down where
    n: "nextTradingDate (ss_tradingDates self) asOfDate (ss_freq self) = Inr nextDate"
    and u: "getUpLimitStocks refPrices = Inr up"
    and d: "getDownLimitStocks refPrices = Inr down"
    by (auto simp add: adjustPosition_plan_def Let_def split: sum.splits)
  let ?hold = "set (map fst (normalise_weights (cleanWeights weights) normalizeWeights))"
  let ?susp = "getSuspendingStocks self asOfDate"
  let ?delist = "set (map fst (filter (\<lambda>(s, d). d \<le> nextDate) (ss_delistedStocks self)))"
  let ?book = "getStocksInBook (ss_position self)"
  from assms n u d have
    sell: "p_stocksToSell p = (?book - ?hold - ?susp - down) \<union> (?book \<inter> ?delist)"
    by (clarsimp simp add: adjustPosition_plan_def Let_def split: sum.splits)
  from assms n u d have
    buy: "p_stocksToBuy p = ?hold - ?book - ?susp - ?delist - up"
    by (clarsimp simp add: adjustPosition_plan_def Let_def split: sum.splits)
  from assms n u d have
    upd: "p_stocksToUpdate p = ?hold \<inter> ?book - ?susp - ?delist - down - up"
    by (clarsimp simp add: adjustPosition_plan_def Let_def split: sum.splits)
  have hold: "(s \<in> ?hold) = (\<exists>w. (s, Fin w) \<in> set weights \<and> 0 \<le> w)" for s
    using cleanWeights_keys [of s weights] by (simp only: normalise_keys)
  have susp: "(s \<in> ?susp) = ((s, asOfDate) \<in> set (ss_suspendingDates self))" for s
    by (force simp add: getSuspendingStocks_def)
  have delist: "(s \<in> ?delist) = (\<exists>d. (s, d) \<in> set (ss_delistedStocks self) \<and> d \<le> nextDate)"
    for s by force
  have "p_stocksToSell p =
          {s. s \<in> ?book \<and> ((\<not> s \<in> ?hold \<and> \<not> s \<in> ?susp \<and> \<not> s \<in> down) \<or> s \<in> ?delist)}"
    unfolding sell by blast
  moreover have "p_stocksToBuy p =
          {s. s \<in> ?hold \<and> \<not> s \<in> ?book \<and> \<not> s \<in> ?susp \<and> \<not> s \<in> up \<and> \<not> s \<in> ?delist}"
    unfolding buy by blast
  moreover have "p_stocksToUpdate p =
          {s. s \<in> ?hold \<and> s \<in> ?book \<and> \<not> s \<in> ?susp \<and> \<not> s \<in> ?delist
              \<and> \<not> s \<in> down \<and> \<not> s \<in> up}"
    unfolding upd by blast
  ultimately show ?thesis
    unfolding Let_def using n u d by (simp only: hold susp delist) blast
qed

theorem adjustPosition_partition_witness:
  "(let self = \<lparr>ss_position =
                   \<lparr>book = [(''A'', \<lparr>Price = Fin 10, Volume = 1000\<rparr>),
                            (''C'', \<lparr>Price = Fin 10, Volume = 200\<rparr>),
                            (''D'', \<lparr>Price = Fin 10, Volume = 300\<rparr>),
                            (''E'', \<lparr>Price = Fin 10, Volume = 400\<rparr>)], cash = 1000\<rparr>,
                 ss_freq = 1,
                 ss_tradingDates = [20170102, 20170103, 20170104],
                 ss_suspendingDates = [(''D'', 20170103), (''E'', 20170103), (''A'', 20170102)],
                 ss_delistedStocks = [(''D'', 20170104), (''C'', 20180101)],
                 ss_getStockDailyData = (\<lambda>startDate endDate. [(''A'', 10)])\<rparr>;
        refPrices = \<lparr>rp_columns = limitColumns,
                      rp_rows = [(''A'', \<lambda>c. if c = ''S_DQ_PCTCHANGE'' then 1 else
                                           if c = ''S_DQ_HIGH'' then 11 else 10),
                                 (''B'', \<lambda>c. if c = ''S_DQ_PCTCHANGE'' then 1 else
                                           if c = ''S_DQ_HIGH'' then 21 else 20),
                                 (''F'', \<lambda>c. if c = ''S_DQ_PCTCHANGE'' then 10 else 30)]\<rparr>;
        weights = [(''B'', Fin 1), (''C'', Fin 1), (''F'', Fin 2), (''A'', Fin (- 1)),
                   (''E'', NaN)]
    in map_sum id (\<lambda>p. (p_stocksToSell p, p_stocksToBuy p, p_stocksToUpdate p))
         (adjustPosition_plan self 20170103 weights refPrices (98 / 100) True False)
       = Inr ({''A'', ''D''}, {''B''}, {''C''}))"
proof -
  let ?self = "\<lparr>ss_position =
                   \<lparr>book = [(''A'', \<lparr>Price = Fin 10, Volume = 1000\<rparr>),
                            (''C'', \<lparr>Price = Fin 10, Volume = 200\<rparr>),
                            (''D'', \<lparr>Price = Fin 10, Volume = 300\<rparr>),
                            (''E'', \<lparr>Price = Fin 10, Volume = 400\<rparr>)], cash = 1000\<rparr>,
                 ss_freq = 1,
                 ss_tradingDates = [20170102, 20170103, 20170104],
                 ss_suspendingDates = [(''D'', 20170103), (''E'', 20170103), (''A'', 20170102)],
                 ss_delistedStocks = [(''D'', 20170104), (''C'', 20180101)],
                 ss_getStockDailyData = (\<lambda>startDate endDate. [(''A'', 10)])\<rparr>"
  let ?refPrices = "\<lparr>rp_columns = limitColumns,
                      rp_rows = [(''A'', \<lambda>c. if c = ''S_DQ_PCTCHANGE'' then 1 else
                                           if c = ''S_DQ_HIGH'' then 11 else 10),
                                 (''B'', \<lambda>c. if c = ''S_DQ_PCTCHANGE'' then 1 else
                                           if c = ''S_DQ_HIGH'' then 21 else 20),
                                 (''F'', \<lambda>c. if c = ''S_DQ_PCTCHANGE'' then (10::real) else 30)]\<rparr>"
  let ?weights = "[(''B'', Fin 1), (''C'', Fin 1), (''F'', Fin 2), (''A'', Fin (- 1)),
                   (''E'', NaN)]"
  have n: "nextTradingDate [20170102, 20170103, 20170104] 20170103 1 = Inr 20170104"
    by (simp add: nextTradingDate_def iloc_def)
  have u: "getUpLimitStocks ?refPrices = Inr {''F''}"
    by (simp add: getUpLimitStocks_def limitColumns_def)
  have d: "getDownLimitStocks ?refPrices = Inr {}"
    by (simp add: getDownLimitStocks_def limitColumns_def)
  obtain p where p: "adjustPosition_plan ?self 20170103 ?weights ?refPrices (98 / 100) True False
                       = Inr p"
    by (simp add: adjustPosition_plan_def prevTradingDate_def iloc_def n u d Let_def)
  from adjustPosition_partition [OF p] obtain nextDate up down where
    a: "nextTradingDate (ss_tradingDates ?self) 20170103 (ss_freq ?self) = Inr nextDate"
    and b: "getUpLimitStocks ?refPrices = Inr up"
    and c: "getDownLimitStocks ?refPrices = Inr down"
    and sell: "p_stocksToSell p =
       {s. s \<in> getStocksInBook (ss_position ?self)
           \<and> ((\<not> (\<exists>w. (s, Fin w) \<in> set ?weights \<and> 0 \<le> w)
                \<and> \<not> (s, 20170103) \<in> set (ss_suspendingDates ?self) \<and> \<not> s \<in> down)
               \<or> (\<exists>d. (s, d) \<in> set (ss_delistedStocks ?self) \<and> d \<le> nextDate))}"
    and buy: "p_stocksToBuy p =
       {s. (\<exists>w. (s, Fin w) \<in> set ?weights \<and> 0 \<le> w)
           \<and> \<not> s \<in> getStocksInBook (ss_position ?self)
           \<and> \<not> (s, 20170103) \<in> set (ss_suspendingDates ?self) \<and> \<not> s \<in> up
           \<and> \<not> (\<exists>d. (s, d) \<in> set (ss_delistedStocks ?self) \<and> d \<le> nextDate)}"
    and upd: "p_stocksToUpdate p =
       {s. (\<exists>w. (s, Fin w) \<in> set ?weights \<and> 0 \<le> w)
           \<and> s \<in> getStocksInBook (ss_position ?self)
           \<and> \<not> (s, 20170103) \<in> set (ss_suspendingDates ?self)
           \<and> \<not> (\<exists>d. (s, d) \<in> set (ss_delistedStocks ?self) \<and> d \<le> nextDate)
           \<and> \<not> s \<in> down \<and> \<not> s \<in> up}"
    unfolding Let_def by (elim exE conjE)
  have nd: "nextDate = 20170104" using a n by simp
  have up: "up = {''F''}" using b u by simp
  have down: "down = {}" using c d by simp
  have "p_stocksToSell p = {''A'', ''D''}"
    unfolding sell nd down by (auto simp add: getStocksInBook_def)
  moreover have "p_stocksToBuy p = {''B''}"
    unfolding buy nd up by (auto simp add: getStocksInBook_def)
  moreover have "p_stocksToUpdate p = {''C''}"
    unfolding upd nd up down by (auto simp add: getStocksInBook_def)
  ultimately show ?thesis using p by (simp add: Let_def)
qed


text \<open>
  Claim C1 as stated fails on the sell set: a held instrument that is suspended on the
  day is in the specification's sell set, and the code leaves it out and emits no order
  for it.
\<close>

theorem adjustPosition_sell_set_counterexample:
  "map_sum id p_stocksToSell
     (adjustPosition_plan
        \<lparr>ss_position = \<lparr>book = [(''A'', \<lparr>Price = Fin 10, Volume = 1000\<rparr>)], cash = 1000\<rparr>,
         ss_freq = 1,
         ss_tradingDates = [20170102, 20170103, 20170104],
         ss_suspendingDates = [(''A'', 20170103)],
         ss_delistedStocks = [],
         ss_getStockDailyData = (\<lambda>startDate endDate. [(''A'', 10)])\<rparr>
        20170103 [] \<lparr>rp_columns = limitColumns, rp_rows = []\<rparr> (98 / 100) True False)
     = Inr {}
   \<and> spec_sell
        (getStocksInBook \<lparr>book = [(''A'', \<lparr>Price = Fin 10, Volume = 1000\<rparr>)], cash = 1000\<rparr>)
        (set (map fst (cleanWeights [])))
        (getSuspendingStocks
           \<lparr>ss_position = \<lparr>book = [(''A'', \<lparr>Price = Fin 10, Volume = 1000\<rparr>)], cash = 1000\<rparr>,
            ss_freq = 1,
            ss_tradingDates = [20170102, 20170103, 20170104],
            ss_suspendingDates = [(''A'', 20170103)],
            ss_delistedStocks = [],
            ss_getStockDailyData = (\<lambda>startDate endDate. [(''A'', 10)])\<rparr> 20170103)
        {} {}
     = {''A''}
   \<and> adjustPosition (\<lambda>S. filter (\<lambda>s. s \<in> S) [''A''])
        \<lparr>ss_position = \<lparr>book = [(''A'', \<lparr>Price = Fin 10, Volume = 1000\<rparr>)], cash = 1000\<rparr>,
         ss_freq = 1,
         ss_tradingDates = [20170102, 20170103, 20170104],
         ss_suspendingDates = [(''A'', 20170103)],
         ss_delistedStocks = [],
         ss_getStockDailyData = (\<lambda>startDate endDate. [(''A'', 10)])\<rparr>
        20170103 [] \<lparr>rp_columns = limitColumns, rp_rows = []\<rparr> (98 / 100) False
        None None None True False
     = Inr []"
  by (simp add: adjustPosition_def adjustPosition_plan_def cleanWeights_def
      normalise_weights_def prevTradingDate_def nextTradingDate_def iloc_def
      getSuspendingStocks_def getTotalAsset_def getStocksInBook_def getUpLimitStocks_def
      getDownLimitStocks_def limitColumns_def refColumn_def attr_def spec_sell_def Let_def)

lemma collect_results:
  "collect f xs = Inr ys \<Longrightarrow> y \<in> set ys \<Longrightarrow> \<exists>x \<in> set xs. f x = Inr y"
proof (induction xs arbitrary: ys)
  case Nil
  then show ?case by simp
next
  case (Cons x xs)
  then show ?case by (auto split: sum.splits)
qed

lemma sellOrder_side: "sellOrder self prices stock = Inr ord \<Longrightarrow> o_side ord = SELL"
  by (auto simp add: sellOrder_def mkOrder_def split: sum.splits)

lemma buyOrder_side: "buyOrder p u prices stock = Inr ord \<Longrightarrow> o_side ord = BUY"
  by (auto simp add: buyOrder_def mkOrder_def split: sum.splits)

lemma updateOrder_side:
  "updateOrder self p u prices stock = Inr (Some ord) \<Longrightarrow> o_side ord = SELL \<or> o_side ord = BUY"
  by (auto simp add: updateOrder_def mkOrder_def Let_def split: sum.splits if_splits)

lemma emitted_sides:
  assumes "collect (updateOrder self p u prices) stocks = Inr updates"
    and "ord \<in> set (concat (map emitted updates))"
  shows "o_side ord = SELL \<or> o_side ord = BUY"
proof -
  from assms(2) obtain r where r: "r \<in> set updates" "ord \<in> set (emitted r)" by auto
  from r(2) have "r = Some ord" by (cases r) simp_all
  with collect_results [OF assms(1) r(1)] show ?thesis
    by (auto dest: updateOrder_side)
qed


text \<open>
  Claim C7. Whenever \<open>adjustPosition\<close> returns, for any iteration order of its sets,
  the orders are sorted by side, every order is a SELL (-1) or a BUY (+1), and every SELL
  stands before every BUY. Moving all weight from a held instrument A to a new instrument
  B gives the A sell order followed by the B buy order.
\<close>

theorem adjustPosition_sells_first:
  assumes "adjustPosition iter self asOfDate weights refPrices positionRate useWeightCapital
             sellRefColumn buyRefColumn updateRefColumn normalizeWeights enableSab = Inr orders"
  shows "sorted (map o_side orders)
         \<and> (\<forall>ord \<in> set orders. o_side ord = SELL \<or> o_side ord = BUY)
         \<and> (\<forall>i j. i < length orders \<and> j < length orders
                  \<and> o_side (orders ! i) = SELL \<and> o_side (orders ! j) = BUY \<longrightarrow> i < j)"
proof -
  from assms obtain p sellRefPrices buyRefPrices updateRefPrices sells buys updates where
    s: "collect (sellOrder self sellRefPrices) (iter (p_stocksToSell p)) = Inr sells"
    and b: "collect (buyOrder p useWeightCapital buyRefPrices) (iter (p_stocksToBuy p)) = Inr buys"
    and u: "collect (updateOrder self p useWeightCapital updateRefPrices)
              (iter (p_stocksToUpdate p)) = Inr updates"
    and orders: "orders = sort_key o_side (sells @ buys @ concat (map emitted updates))"
    by (auto simp add: adjustPosition_def split: sum.splits)
  have sorted: "sorted (map o_side orders)"
    unfolding orders by (rule sorted_sort_key)
  have sides: "o_side ord = SELL \<or> o_side ord = BUY" if "ord \<in> set orders" for ord
  proof -
    from that have "ord \<in> set sells \<or> ord \<in> set buys
                    \<or> ord \<in> set (concat (map emitted updates))"
      unfolding orders by auto
    then show ?thesis
      using collect_results [OF s] collect_results [OF b] emitted_sides [OF u]
      by (auto dest: sellOrder_side buyOrder_side)
  qed
  have first: "i < j" if "i < length orders \<and> j < length orders
                  \<and> o_side (orders ! i) = SELL \<and> o_side (orders ! j) = BUY" for i j
  proof (rule ccontr)
    assume "\<not> i < j"
    then have "j \<le> i" by simp
    with sorted that have "map o_side orders ! j \<le> map o_side orders ! i"
      by (intro sorted_nth_mono) simp_all
    with that show False by (simp add: SELL_def BUY_def)
  qed
  show ?thesis using sorted sides first by blast
qed

theorem adjustPosition_sells_first_witness:
  "(let self = \<lparr>ss_position = \<lparr>book = [(''A'', \<lparr>Price = Fin 10, Volume = 1000\<rparr>)], cash = 1000\<rparr>,
                 ss_freq = 1,
                 ss_tradingDates = [20170102, 20170103, 20170104],
                 ss_suspendingDates = [],
                 ss_delistedStocks = [],
                 ss_getStockDailyData = (\<lambda>startDate endDate. [(''A'', 10)])\<rparr>;
        refPrices = \<lparr>rp_columns = limitColumns,
                      rp_rows = [(''A'', \<lambda>c. if c = ''S_DQ_PCTCHANGE'' then 1 else
                                           if c = ''S_DQ_HIGH'' then 11 else 10),
                                 (''B'', \<lambda>c. if c = ''S_DQ_PCTCHANGE'' then 1 else
                                           if c = ''S_DQ_HIGH'' then 21 else 20)]\<rparr>;
        orders = [mkOrder ''A'' SELL 1000 10, mkOrder ''B'' BUY 500 20]
    in adjustPosition (\<lambda>S. filter (\<lambda>s. s \<in> S) [''B'', ''A'']) self 20170103
         [(''B'', Fin 1)] refPrices (98 / 100) False None None None True False = Inr orders
       \<and> sorted (map o_side orders)
       \<and> o_side (orders ! 0) = SELL \<and> o_side (orders ! 1) = BUY)"
proof -
  let ?self = "\<lparr>ss_position = \<lparr>book = [(''A'', \<lparr>Price = Fin 10, Volume = 1000\<rparr>)], cash = 1000\<rparr>,
                 ss_freq = 1,
                 ss_tradingDates = [20170102, 20170103, 20170104],
                 ss_suspendingDates = [],
                 ss_delistedStocks = [],
                 ss_getStockDailyData = (\<lambda>startDate endDate. [(''A'', 10)])\<rparr>"
  let ?refPrices = "\<lparr>rp_columns = limitColumns,
                      rp_rows = [(''A'', \<lambda>c. if c = ''S_DQ_PCTCHANGE'' then 1 else
                                           if c = ''S_DQ_HIGH'' then 11 else 10),
                                 (''B'', \<lambda>c. if c = ''S_DQ_PCTCHANGE'' then (1::real) else
                                           if c = ''S_DQ_HIGH'' then 21 else 20)]\<rparr>"
  let ?iter = "\<lambda>S. filter (\<lambda>s. s \<in> S) [''B'', ''A'']"
  have plan: "adjustPosition_plan ?self 20170103 [(''B'', Fin 1)] ?refPrices (98 / 100) True False
      = Inr \<lparr>p_weights = [(''B'', Fin 1)], p_totalAsset = 10780,
             p_stocksToSell = {''A''}, p_stocksToBuy = {''B''}, p_stocksToUpdate = {}\<rparr>"
    by (simp add: adjustPosition_plan_def cleanWeights_def normalise_weights_def prevTradingDate_def
        nextTradingDate_def iloc_def getSuspendingStocks_def getTotalAsset_def
        getStocksInBook_def getUpLimitStocks_def getDownLimitStocks_def limitColumns_def
        Let_def)
  have run: "adjustPosition ?iter ?self 20170103 [(''B'', Fin 1)] ?refPrices (98 / 100) False
               None None None True False
             = Inr [mkOrder ''A'' SELL 1000 10, mkOrder ''B'' BUY 500 20]"
    unfolding adjustPosition_def plan
    by (simp add: refColumn_def attr_def limitColumns_def sellOrder_def buyOrder_def
        monetaryVolume_def getPosition_def ix_def roundVolume_def py_int_def mkOrder_def
        SELL_def BUY_def)
  show ?thesis
    unfolding Let_def
    using adjustPosition_sells_first [OF run] run
    by (simp add: mkOrder_def)
qed

end
